theory Spec2Isabelle
  imports Main "HOL-Library.Word" "HOL-Library.Char_ord" "HOL-Library.List_Lexorder"
    "HOL-Library.Multiset" "HOL-Library.Sublist"
begin

unbundle bit_operations_syntax

section \<open>Errors raised by the modelled code\<close>

text \<open>
  Every Python exception that the modelled functions can raise is a value;
  \<open>Propagated e\<close> is an exception of a transform stage that no handler caught. The two
  messages of \<open>ReflectionError\<close> in \<open>SuperFactory.create\<close> keep their arguments:
  \<^item> \<open>"Dependency not found: {}. Available options are: {}"\<close> with the dependency name
    and \<open>subclasses.keys()\<close>;
  \<^item> \<open>"Unknown option for [{}] ---> [{}]"\<close> with the class name and the option name.

  \<open>Unmodelled\<close> is no exception of Python: it marks the calls of \<open>SuperFactory.create\<close>
  whose outcome the model does not determine.
\<close>

text \<open>
  An exception raised by a transform stage: its class as far as the handlers of the
  preprocessors tell classes apart (\<open>except FeaturizationError\<close>, then
  \<open>except Exception\<close>; an exception that derives from \<open>BaseException\<close> only, such as
  \<open>KeyboardInterrupt\<close>, is caught by neither), its text \<open>str(e)\<close>, and the text that
  \<open>traceback.format_exc()\<close> gives while it is handled.
\<close>

datatype exc_class = FeaturizationError | OtherException | BaseExceptionOnly

datatype exc = Exc (exc_class: exc_class) (message: string) (trace: string)

datatype error =
    ZeroDivisionError
  | Propagated exc
  | IndexError
  | KeyError string
  | TypeError
  | AttributeError
  | ImportError string
  | RecursionError
  | DependencyNotFound string "string list"
  | UnknownOption string string
  | ValueError
  | Unmodelled

section \<open>Chunking a dataset: \<open>AbstractPreprocessor._get_chunks\<close>\<close>

text \<open>
  Python's slice \<open>xs[lo:hi]\<close> with integer bounds: a negative bound counts from the end,
  and both bounds are clamped to \<open>0 .. len(xs)\<close>.
\<close>

definition py_clamp :: "nat \<Rightarrow> int \<Rightarrow> nat" where
  "py_clamp n i = (if i < 0 then nat (max (i + int n) 0) else min (nat i) n)"

definition py_slice :: "'a list \<Rightarrow> int \<Rightarrow> int \<Rightarrow> 'a list" where
  "py_slice xs lo hi =
     (let a = py_clamp (length xs) lo; b = py_clamp (length xs) hi
      in take (b - a) (drop a xs))"

text \<open>\<open>range(k)\<close>: the integers \<open>0, ..., k - 1\<close>, none when \<open>k \<le> 0\<close>.\<close>

definition py_range :: "int \<Rightarrow> int list" where
  "py_range k = map int [0..<nat k]"

text \<open>
  \<^verbatim>\<open>
  def _get_chunks(self, dataset):
      n_jobs = self._config.featurization_jobs
      chunk_size = len(dataset) // n_jobs
      range_list = list(range(0, len(dataset)))
      chunks = [
          range_list[i * chunk_size : (i + 1) * chunk_size]
          for i in range((len(dataset) + chunk_size - 1) // chunk_size)
      ]
      return [Subset(dataset, chunk) for chunk in chunks]
  \<close>
  \<open>featurization_jobs\<close> is a Python \<open>int\<close>; \<open>//\<close> is floor division (as \<open>div\<close> on
  \<open>int\<close> is) and raises \<open>ZeroDivisionError\<close> on a zero divisor. \<open>get_chunk_indices\<close>
  is the list \<open>chunks\<close> of index lists; \<open>Subset(dataset, chunk)\<close> is a view that
  yields \<open>dataset[i]\<close> for the indices \<open>i\<close> of \<open>chunk\<close> in order, here the list of
  those samples.
\<close>

definition get_chunk_indices :: "int \<Rightarrow> nat \<Rightarrow> error + nat list list" where
  "get_chunk_indices n_jobs len =
     (if n_jobs = 0 then Inl ZeroDivisionError
      else
        let chunk_size = int len div n_jobs;
            range_list = [0..<len]
        in if chunk_size = 0 then Inl ZeroDivisionError
           else Inr (map (\<lambda>i. py_slice range_list (i * chunk_size) ((i + 1) * chunk_size))
                      (py_range ((int len + chunk_size - 1) div chunk_size))))"

definition Subset :: "'a list \<Rightarrow> nat list \<Rightarrow> 'a list" where
  "Subset dataset chunk = map (\<lambda>i. dataset ! i) chunk"

definition get_chunks :: "int \<Rightarrow> 'a list \<Rightarrow> error + 'a list list" where
  "get_chunks n_jobs dataset =
     (case get_chunk_indices n_jobs (length dataset) of
        Inl e \<Rightarrow> Inl e
      | Inr chunks \<Rightarrow> Inr (map (Subset dataset) chunks))"


section \<open>Facts about chunking\<close>

text \<open>
  With at least one worker and no more workers than samples every quantity of
  \<open>_get_chunks\<close> is a natural number: chunk \<open>i\<close> is the index range from
  \<open>chunk_bound cs S i\<close> up to \<open>chunk_bound cs S (i + 1)\<close> for the chunk size
  \<open>cs = S div w\<close>, and there are \<open>chunk_count w S\<close> chunks.
\<close>

definition chunk_bound :: "nat \<Rightarrow> nat \<Rightarrow> nat \<Rightarrow> nat" where
  "chunk_bound cs S i = min (i * cs) S"

definition chunk_count :: "nat \<Rightarrow> nat \<Rightarrow> nat" where
  "chunk_count w S = (S + S div w - 1) div (S div w)"

lemma concat_upt_chain:
  "(\<And>i. i < m \<Longrightarrow> f i \<le> f (Suc i)) \<Longrightarrow>
   concat (map (\<lambda>i. [f i ..< f (Suc i)]) [0..<m]) = [f 0 ..< f m]"
proof (induction m)
  case 0
  then show ?case by simp
next
  case (Suc m)
  have mono: "f 0 \<le> f m" using Suc.prems
  proof (induction m)
    case 0
    then show ?case by simp
  next
    case (Suc k)
    have "f 0 \<le> f k" using Suc by simp
    moreover have "f k \<le> f (Suc k)" using Suc.prems[of k] by simp
    ultimately show ?case by simp
  qed
  have "f m \<le> f (Suc m)" using Suc.prems[of m] by simp
  then have "[f 0 ..< f m] @ [f m ..< f (Suc m)] = [f 0 ..< f (Suc m)]"
    using mono by (metis le_Suc_ex upt_add_eq_append)
  then show ?case using Suc by simp
qed

lemma take_drop_upt: "a \<le> n \<Longrightarrow> b \<le> n \<Longrightarrow> take (b - a) (drop a [0..<n]) = [a..<b]"
  by (cases "a \<le> b") simp_all

lemma py_slice_upt:
  "0 \<le> lo \<Longrightarrow> 0 \<le> hi \<Longrightarrow> py_slice [0..<n] lo hi = [min (nat lo) n ..< min (nat hi) n]"
  unfolding py_slice_def py_clamp_def Let_def
  by (simp add: take_drop_upt del: drop_upt take_upt)

lemma get_chunk_indices_small:
  assumes "1 \<le> W" "int S < W"
  shows "get_chunk_indices W S = Inl ZeroDivisionError"
  using assms by (simp add: get_chunk_indices_def Let_def)

lemma get_chunk_indices_nat:
  assumes "0 < w" "w \<le> S"
  shows "get_chunk_indices (int w) S =
     Inr (map (\<lambda>i. [chunk_bound (S div w) S i ..< chunk_bound (S div w) S (Suc i)])
            [0..<chunk_count w S])"
proof -
  let ?cs = "S div w"
  have cs: "0 < ?cs" using assms by (simp add: div_greater_zero_iff)
  have csi: "int S div int w = int ?cs" by (simp add: zdiv_int)
  have "int S + int ?cs - 1 = int (S + ?cs - 1)" using cs by linarith
  then have m: "(int S + int ?cs - 1) div int ?cs = int (chunk_count w S)"
    by (simp add: chunk_count_def zdiv_int)
  have sl: "py_slice [0..<S] (int i * int ?cs) ((int i + 1) * int ?cs)
       = [chunk_bound ?cs S i ..< chunk_bound ?cs S (Suc i)]" for i
  proof -
    have a: "nat (int i * int ?cs) = i * ?cs" by (simp add: nat_mult_distrib)
    have b: "nat ((int i + 1) * int ?cs) = Suc i * ?cs"
      by (metis nat_int of_nat_Suc of_nat_mult add.commute)
    show ?thesis using py_slice_upt[of "int i * int ?cs" "(int i + 1) * int ?cs" S]
      unfolding a b chunk_bound_def by simp
  qed
  show ?thesis using assms cs
    unfolding get_chunk_indices_def Let_def csi m py_range_def
    by (simp add: sl comp_def)
qed

lemma chunk_count_cover:
  assumes "0 < w" "w \<le> S"
  shows "S \<le> chunk_count w S * (S div w)"
proof -
  let ?cs = "S div w"
  have cs: "0 < ?cs" using assms by (simp add: div_greater_zero_iff)
  have "S + ?cs - 1 < ((S + ?cs - 1) div ?cs) * ?cs + ?cs"
    using cs by (metis add.commute mod_less_divisor div_mult_mod_eq add_less_cancel_left)
  then show ?thesis unfolding chunk_count_def using cs by linarith
qed

lemma chunk_count_pos:
  assumes "0 < w" "w \<le> S"
  shows "0 < chunk_count w S"
  using chunk_count_cover[OF assms] assms by (metis gr0I mult_0 not_le)

lemma chunk_count_last:
  assumes "0 < w" "w \<le> S"
  shows "(chunk_count w S - 1) * (S div w) < S"
proof -
  let ?cs = "S div w"
  have cs: "0 < ?cs" using assms by (simp add: div_greater_zero_iff)
  have "((S + ?cs - 1) div ?cs) * ?cs \<le> S + ?cs - 1" by simp
  moreover note chunk_count_pos[OF assms]
  ultimately have "(chunk_count w S - 1) * ?cs + ?cs \<le> S + ?cs - 1"
    unfolding chunk_count_def by (simp add: algebra_simps diff_mult_distrib)
  then show ?thesis using cs assms by linarith
qed

lemma chunk_count_ge:
  assumes "0 < w" "w \<le> S"
  shows "w \<le> chunk_count w S"
proof -
  have "(S div w) * w \<le> S" by simp
  also have "S \<le> chunk_count w S * (S div w)" by (rule chunk_count_cover[OF assms])
  finally have "(S div w) * w \<le> (S div w) * chunk_count w S" by (simp add: mult.commute)
  moreover have "0 < S div w" using assms by (simp add: div_greater_zero_iff)
  ultimately show ?thesis by simp
qed

lemma chunk_count_dvd:
  assumes "0 < w" "w \<le> S" "w dvd S"
  shows "chunk_count w S = w"
proof -
  let ?cs = "S div w"
  have cs: "0 < ?cs" using assms by (simp add: div_greater_zero_iff)
  have S: "S = w * ?cs" using assms by simp
  have "S + ?cs - 1 = w * ?cs + (?cs - 1)" using cs S by linarith
  moreover have "(w * ?cs + (?cs - 1)) div ?cs = w + (?cs - 1) div ?cs"
    using cs by (metis div_mult_self3 less_numeral_extra(3))
  moreover have "(?cs - 1) div ?cs = 0" using cs by simp
  ultimately have "(S + ?cs - 1) div ?cs = w" by simp
  then show ?thesis by (simp add: chunk_count_def)
qed

lemma concat_chunks:
  assumes "0 < w" "w \<le> S"
  shows "concat (map (\<lambda>i. [chunk_bound (S div w) S i ..< chunk_bound (S div w) S (Suc i)])
                  [0..<chunk_count w S]) = [0..<S]"
proof -
  have "concat (map (\<lambda>i. [chunk_bound (S div w) S i ..< chunk_bound (S div w) S (Suc i)])
                  [0..<chunk_count w S])
      = [chunk_bound (S div w) S 0 ..< chunk_bound (S div w) S (chunk_count w S)]"
    by (rule concat_upt_chain) (simp add: chunk_bound_def)
  also have "\<dots> = [0..<S]" using chunk_count_cover[OF assms] by (simp add: chunk_bound_def)
  finally show ?thesis .
qed


lemma get_chunk_indices_partition:
  assumes "1 \<le> W" "W \<le> int S"
  shows "\<exists>chunks. get_chunk_indices W S = Inr chunks \<and> concat chunks = [0..<S]"
proof -
  have w: "0 < nat W" "nat W \<le> S" "W = int (nat W)" using assms by simp_all
  show ?thesis
    using get_chunk_indices_nat[OF w(1,2)] concat_chunks[OF w(1,2)] w(3) by auto
qed

section \<open>Claims about chunking\<close>

text \<open>
  C2. The claim: for every dataset size \<open>S \<ge> 1\<close> and worker count \<open>W \<ge> 1\<close> the chunks
  of \<open>_get_chunks\<close> are contiguous index ranges whose union is exactly \<open>[0, S)\<close>, each
  index once. With fewer samples than workers \<open>chunk_size\<close> is \<open>0\<close> and the
  division that counts the chunks raises \<open>ZeroDivisionError\<close>: here a dataset of three
  samples with the default \<open>featurization_jobs = 4\<close> of \<open>Config\<close>. No chunk is
  produced.
\<close>

theorem get_chunks_three_samples_four_jobs:
  "get_chunks 4 [s0, s1, s2] = Inl ZeroDivisionError"
  by (simp add: get_chunks_def get_chunk_indices_def)

text \<open>
  C6, as the claim states it, fails: ten samples and four workers give five chunks of
  two indices each, not four chunks with a longer last one.
\<close>

theorem get_chunks_count_counterexample:
  "get_chunk_indices 4 10 = Inr [[0, 1], [2, 3], [4, 5], [6, 7], [8, 9]]
   \<and> length [[0, 1], [2, 3], [4, 5], [6, 7], [8, 9 :: nat]] \<noteq> 4"
  by (simp add: get_chunk_indices_def py_range_def py_slice_def py_clamp_def upt_rec)

text \<open>
  C6, amended. For a dataset of \<open>S\<close> samples and \<open>W\<close> workers with \<open>1 \<le> W \<le> S\<close>,
  \<open>_get_chunks\<close> returns contiguous index ranges that cover \<open>[0, S)\<close> in order. Every
  chunk but the last has \<open>S div W\<close> indices, the last has between \<open>1\<close> and \<open>S div W\<close>.
  Their number is \<open>(S + S div W - 1) div (S div W)\<close>, at least \<open>W\<close>, and exactly \<open>W\<close>
  when \<open>W\<close> divides \<open>S\<close>: a remainder goes to further chunks.
\<close>

theorem get_chunks_shape:
  assumes "1 \<le> W" "W \<le> int S"
  shows "\<exists>chunks. get_chunk_indices W S = Inr chunks
     \<and> concat chunks = [0..<S]
     \<and> length chunks = (S + S div nat W - 1) div (S div nat W)
     \<and> nat W \<le> length chunks
     \<and> (nat W dvd S \<longrightarrow> length chunks = nat W)
     \<and> (\<forall>i. Suc i < length chunks \<longrightarrow> length (chunks ! i) = S div nat W)
     \<and> 0 < length (last chunks) \<and> length (last chunks) \<le> S div nat W"
proof -
  define w where "w = nat W"
  define cs where "cs = S div w"
  define m where "m = chunk_count w S"
  define chunks where "chunks = map (\<lambda>i. [chunk_bound cs S i ..< chunk_bound cs S (Suc i)]) [0..<m]"
  have w: "0 < w" "w \<le> S" "W = int w" using assms by (simp_all add: w_def)
  have cs: "0 < cs" using w by (simp add: cs_def div_greater_zero_iff)
  have m: "0 < m" using chunk_count_pos[OF w(1,2)] by (simp add: m_def)
  have cover: "S \<le> m * cs" using chunk_count_cover[OF w(1,2)] by (simp add: m_def cs_def)
  have lastlt: "(m - 1) * cs < S" using chunk_count_last[OF w(1,2)] by (simp add: m_def cs_def)
  have 1: "get_chunk_indices W S = Inr chunks"
    using get_chunk_indices_nat[OF w(1,2)] by (simp add: w(3) chunks_def cs_def m_def)
  have 2: "concat chunks = [0..<S]"
    using concat_chunks[OF w(1,2)] by (simp add: chunks_def cs_def m_def)
  have 3: "length chunks = (S + S div w - 1) div (S div w)"
    by (simp add: chunks_def m_def chunk_count_def)
  have 4: "w \<le> length chunks"
    using chunk_count_ge[OF w(1,2)] by (simp add: chunks_def m_def)
  have 5: "w dvd S \<longrightarrow> length chunks = w"
    using chunk_count_dvd[OF w(1,2)] by (simp add: chunks_def m_def)
  have 6: "length (chunks ! i) = cs" if "Suc i < length chunks" for i
  proof -
    have i: "Suc i < m" using that by (simp add: chunks_def)
    then have "Suc i \<le> m - 1" by simp
    then have "Suc i * cs \<le> (m - 1) * cs" by (rule mult_le_mono1)
    then have le: "Suc i * cs \<le> S" using lastlt by simp
    then have "i * cs \<le> S" by simp
    then show ?thesis using i le by (simp add: chunks_def chunk_bound_def)
  qed
  have l: "last chunks = [chunk_bound cs S (m - 1) ..< chunk_bound cs S m]"
    using m by (simp add: chunks_def last_map)
  have b1: "chunk_bound cs S (m - 1) = (m - 1) * cs" using lastlt by (simp add: chunk_bound_def)
  have b2: "chunk_bound cs S m = S" using cover by (simp add: chunk_bound_def)
  have ll: "length (last chunks) = S - (m - 1) * cs"
    by (simp only: l b1 b2 length_upt)
  have "m * cs = (m - 1) * cs + cs" using m by (simp add: diff_mult_distrib)
  then have 7: "0 < length (last chunks)" "length (last chunks) \<le> cs"
    using lastlt cover unfolding ll by linarith+
  show ?thesis
    using 1 2 3 4 5 6 7 unfolding w_def[symmetric] cs_def[symmetric] by blast
qed

theorem get_chunks_shape_witness:
  "\<exists>chunks. get_chunk_indices 3 10 = Inr chunks
     \<and> concat chunks = [0..<10]
     \<and> length chunks = 4
     \<and> length (chunks ! 0) = 3
     \<and> length (last chunks) = 1"
proof -
  have h: "(1::int) \<le> 3" "(3::int) \<le> int 10" by simp_all
  obtain chunks where c: "get_chunk_indices 3 10 = Inr chunks" "concat chunks = [0..<10]"
    "length chunks = (10 + 10 div nat 3 - 1) div (10 div nat 3)"
    "\<forall>i. Suc i < length chunks \<longrightarrow> length (chunks ! i) = 10 div nat 3"
    "0 < length (last chunks)" "length (last chunks) \<le> 10 div nat 3"
    using get_chunks_shape[OF h] by blast
  have n3: "nat 3 = 3" by simp
  have len: "length chunks = 4" using c(3) unfolding n3 by simp
  have first: "length (chunks ! 0) = 3" using c(4) len unfolding n3 by simp
  have "get_chunk_indices 3 10 = Inr [[0, 1, 2], [3, 4, 5], [6, 7, 8], [9]]"
    by (simp add: get_chunk_indices_def py_range_def py_slice_def py_clamp_def upt_rec)
  then have "chunks = [[0, 1, 2], [3, 4, 5], [6, 7, 8], [9]]"
    using c(1) by simp
  then have "length (last chunks) = 1" by simp
  then show ?thesis using c(1,2) len first by blast
qed


section \<open>Samples, transform stages and the transform chain\<close>

text \<open>
  Modelled from the spec: \<open>DataPoint\<close> (its module is not among the sources), "a mutable
  record with a mapping of named input fields, a unique identifier, optional label/output
  fields". The preprocessors read \<open>sample.id_\<close> (the field \<open>ident\<close>: a name cannot end with an underscore here) and \<open>sample.inputs\<close> only. The values of
  the input fields (texts, tensors, graphs) are of a type \<open>'v\<close>.
\<close>

record 'v datapoint =
  ident :: int
  inputs :: "(string \<times> 'v) list"

text \<open>
  \<open>featurizer.run(sample)\<close> and \<open>transformer.apply(sample)\<close> change the sample in place
  and may raise: a stage returns the exception, if any, and the sample as it then is.
\<close>

type_synonym 'v stage = "'v datapoint \<Rightarrow> exc option \<times> 'v datapoint"

record 'v preprocessor =
  featurization_jobs :: int
  featurizers :: "'v stage list"
  transformers :: "'v stage list"

fun run_stages :: "'v stage list \<Rightarrow> 'v stage" where
  "run_stages [] sample = (None, sample)"
| "run_stages (f # fs) sample =
     (case f sample of
        (Some e, sample') \<Rightarrow> (Some e, sample')
      | (None, sample') \<Rightarrow> run_stages fs sample')"

definition featurize :: "('v, 'z) preprocessor_scheme \<Rightarrow> 'v stage" where
  "featurize self sample = run_stages (featurizers self) sample"

definition apply_transformers :: "('v, 'z) preprocessor_scheme \<Rightarrow> 'v stage" where
  "apply_transformers self sample = run_stages (transformers self) sample"

definition preprocess :: "('v, 'z) preprocessor_scheme \<Rightarrow> 'v stage" where
  "preprocess self sample =
     (case featurize self sample of
        (Some e, sample') \<Rightarrow> (Some e, sample')
      | (None, sample') \<Rightarrow> apply_transformers self sample')"

section \<open>Log records\<close>

datatype level = DEBUG | INFO | WARNING | ERROR

datatype 'v part = PText string | PSample "'v datapoint" | PValue 'v | PExc exc

type_synonym 'v log_entry = "level \<times> 'v part list"

definition render_part :: "('v datapoint \<Rightarrow> string) \<Rightarrow> ('v \<Rightarrow> string) \<Rightarrow> 'v part \<Rightarrow> string" where
  "render_part str_sample str_value p =
     (case p of
        PText t \<Rightarrow> t
      | PSample s \<Rightarrow> str_sample s
      | PValue v \<Rightarrow> str_value v
      | PExc e \<Rightarrow> message e)"

definition entry_text :: "('v datapoint \<Rightarrow> string) \<Rightarrow> ('v \<Rightarrow> string) \<Rightarrow> 'v log_entry \<Rightarrow> string" where
  "entry_text str_sample str_value entry = concat (map (render_part str_sample str_value) (snd entry))"

definition newline :: string where
  "newline = [CHR 0x0A]"

definition smiles_of :: "'v datapoint \<Rightarrow> 'v part" where
  "smiles_of sample =
     (case map_of (inputs sample) ''smiles'' of Some v \<Rightarrow> PValue v | None \<Rightarrow> PText '''')"

section \<open>Collections\<close>

text \<open>
  Modelled from the spec: \<open>CacheDiskList\<close> (its module is not among the sources), the
  disk-backed form of a dataset, "append-only, overflow to storage, supports streaming
  iteration and merge/extend with another disk-backed collection". A collection is the
  list of its samples in the order of iteration, tagged with its kind; \<open>append\<close> adds one
  sample at the end and \<open>extend\<close> adds the samples of another collection at the end, as
  on a Python list. The release of the backing storage (\<open>clear\<close>) is not modelled.
\<close>

datatype 'a collection = MemList (items: "'a list") | CacheDiskList (items: "'a list")

definition append_c :: "'a collection \<Rightarrow> 'a \<Rightarrow> 'a collection" where
  "append_c c x = (case c of MemList xs \<Rightarrow> MemList (xs @ [x]) | CacheDiskList xs \<Rightarrow> CacheDiskList (xs @ [x]))"

definition extend_c :: "'a collection \<Rightarrow> 'a collection \<Rightarrow> 'a collection" where
  "extend_c c d = (case c of MemList xs \<Rightarrow> MemList (xs @ items d) | CacheDiskList xs \<Rightarrow> CacheDiskList (xs @ items d))"

section \<open>CachePreprocessor\<close>

record 'v cache_preprocessor = "'v preprocessor" +
  use_disk :: bool

record 'v chunk_result =
  dataset :: "'v datapoint collection"
  logged :: "'v log_entry list"

definition prepare_sample ::
  "'v cache_preprocessor \<Rightarrow> 'v chunk_result \<Rightarrow> 'v datapoint \<Rightarrow> error + 'v chunk_result" where
  "prepare_sample self st sample =
     (let smiles = smiles_of sample in
      case preprocess self sample of
        (None, sample') \<Rightarrow> Inr (st\<lparr>dataset := append_c (dataset st) sample'\<rparr>)
      | (Some e, sample') \<Rightarrow>
          (case exc_class e of
             FeaturizationError \<Rightarrow>
               Inr (st\<lparr>logged := logged st @ [(WARNING, [PExc e, PText newline, PText (trace e)])]\<rparr>)
           | OtherException \<Rightarrow>
               Inr (st\<lparr>logged := logged st @
                     [(ERROR, [PSample sample', PText '' '', smiles, PText '' - '', PExc e,
                               PText newline, PText (trace e)])]\<rparr>)
           | BaseExceptionOnly \<Rightarrow> Inl (Propagated e)))"

fun prepare_loop ::
  "'v cache_preprocessor \<Rightarrow> 'v chunk_result \<Rightarrow> 'v datapoint list \<Rightarrow> error + 'v chunk_result" where
  "prepare_loop self st [] = Inr st"
| "prepare_loop self st (sample # rest) =
     (case prepare_sample self st sample of
        Inl e \<Rightarrow> Inl e
      | Inr st' \<Rightarrow> prepare_loop self st' rest)"

definition prepare_chunk :: "'v cache_preprocessor \<Rightarrow> 'v datapoint list \<Rightarrow> error + 'v chunk_result" where
  "prepare_chunk self loader =
     prepare_loop self
       \<lparr>dataset = (if use_disk self then CacheDiskList [] else MemList []), logged = []\<rparr> loader"

fun future_results :: "(error + 'a) list \<Rightarrow> error + 'a list" where
  "future_results [] = Inr []"
| "future_results (Inl e # futures) = Inl e"
| "future_results (Inr r # futures) =
     (case future_results futures of Inl e \<Rightarrow> Inl e | Inr rs \<Rightarrow> Inr (r # rs))"

definition run_parrallel ::
  "('v, 'z) preprocessor_scheme \<Rightarrow> ('v datapoint list \<Rightarrow> error + 'v chunk_result) \<Rightarrow>
   'v datapoint list \<Rightarrow> bool \<Rightarrow> error + 'v datapoint collection \<times> 'v log_entry list list" where
  "run_parrallel self func data disk =
     (case get_chunks (featurization_jobs self) data of
        Inl e \<Rightarrow> Inl e
      | Inr chunks \<Rightarrow>
          (case future_results (map func chunks) of
             Inl e \<Rightarrow> Inl e
           | Inr rs \<Rightarrow>
               if disk then
                 (case map dataset rs of
                    [] \<Rightarrow> Inl IndexError
                  | d # ds \<Rightarrow> Inr (foldl extend_c d ds, map logged rs))
               else Inr (MemList (concat (map (items \<circ> dataset) rs)), map logged rs)))"


section \<open>The loop of \<open>_prepare_chunk\<close> as a description of its result\<close>

definition warning_entry :: "exc \<Rightarrow> 'v log_entry" where
  "warning_entry e = (WARNING, [PExc e, PText newline, PText (trace e)])"

definition error_entry :: "'v datapoint \<Rightarrow> 'v datapoint \<Rightarrow> exc \<Rightarrow> 'v log_entry" where
  "error_entry sample sample' e =
     (ERROR, [PSample sample', PText '' '', smiles_of sample, PText '' - '', PExc e,
              PText newline, PText (trace e)])"

definition kept :: "('v, 'z) preprocessor_scheme \<Rightarrow> 'v datapoint list \<Rightarrow> 'v datapoint list" where
  "kept self loader = [snd (preprocess self s). s \<leftarrow> loader, fst (preprocess self s) = None]"

definition entry_of :: "('v, 'z) preprocessor_scheme \<Rightarrow> 'v datapoint \<Rightarrow> 'v log_entry list" where
  "entry_of self s =
     (case preprocess self s of
        (None, s') \<Rightarrow> []
      | (Some e, s') \<Rightarrow>
          (case exc_class e of
             FeaturizationError \<Rightarrow> [warning_entry e]
           | OtherException \<Rightarrow> [error_entry s s' e]
           | BaseExceptionOnly \<Rightarrow> []))"

definition entries :: "('v, 'z) preprocessor_scheme \<Rightarrow> 'v datapoint list \<Rightarrow> 'v log_entry list" where
  "entries self loader = concat (map (entry_of self) loader)"

fun first_fatal :: "('v, 'z) preprocessor_scheme \<Rightarrow> 'v datapoint list \<Rightarrow> exc option" where
  "first_fatal self [] = None"
| "first_fatal self (s # rest) =
     (case fst (preprocess self s) of
        None \<Rightarrow> first_fatal self rest
      | Some e \<Rightarrow> if exc_class e = BaseExceptionOnly then Some e else first_fatal self rest)"

lemma items_append_c [simp]: "items (append_c c x) = items c @ [x]"
  by (cases c) (simp_all add: append_c_def)

lemma items_extend_c [simp]: "items (extend_c c d) = items c @ items d"
  by (cases c) (simp_all add: extend_c_def)

lemma items_foldl_extend_c: "items (foldl extend_c d ds) = items d @ concat (map items ds)"
  by (induction ds arbitrary: d) simp_all

lemma kept_simps [simp]:
  "kept self [] = []"
  "kept self (s # rest) =
     (if fst (preprocess self s) = None then snd (preprocess self s) # kept self rest
      else kept self rest)"
  by (simp_all add: kept_def)

lemma kept_append: "kept self (xs @ ys) = kept self xs @ kept self ys"
  by (simp add: kept_def)

lemma entries_simps [simp]:
  "entries self [] = []"
  "entries self (s # rest) = entry_of self s @ entries self rest"
  by (simp_all add: entries_def)

lemma entries_append: "entries self (xs @ ys) = entries self xs @ entries self ys"
  by (simp add: entries_def)

lemma first_fatal_append:
  "first_fatal self (xs @ ys) =
     (case first_fatal self xs of Some e \<Rightarrow> Some e | None \<Rightarrow> first_fatal self ys)"
  by (induction xs) (simp_all split: option.splits)

lemma prepare_loop_result:
  "prepare_loop self st loader =
     (case first_fatal self loader of
        Some e \<Rightarrow> Inl (Propagated e)
      | None \<Rightarrow> Inr (st\<lparr>dataset := foldl append_c (dataset st) (kept self loader),
                        logged := logged st @ entries self loader\<rparr>))"
proof (induction loader arbitrary: st)
  case Nil
  then show ?case by simp
next
  case (Cons s rest)
  obtain r s' where p: "preprocess self s = (r, s')" by (cases "preprocess self s")
  show ?case
  proof (cases r)
    case None
    then show ?thesis using p Cons.IH
      by (simp add: prepare_sample_def entry_of_def split: option.splits)
  next
    case (Some e)
    then show ?thesis using p Cons.IH
      by (cases "exc_class e")
         (simp_all add: prepare_sample_def entry_of_def warning_entry_def error_entry_def
            split: option.splits)
  qed
qed

lemma items_foldl_append_c: "items (foldl append_c c xs) = items c @ xs"
  by (induction xs arbitrary: c) simp_all

lemma prepare_chunk_result:
  "prepare_chunk self loader =
     (case first_fatal self loader of
        Some e \<Rightarrow> Inl (Propagated e)
      | None \<Rightarrow> Inr \<lparr>dataset = foldl append_c (if use_disk self then CacheDiskList [] else MemList [])
                                   (kept self loader),
                      logged = entries self loader\<rparr>)"
  by (simp add: prepare_chunk_def prepare_loop_result split: option.splits)

lemma future_results_prepare_chunk:
  "future_results (map (prepare_chunk self) chunks) =
     (case first_fatal self (concat chunks) of
        Some e \<Rightarrow> Inl (Propagated e)
      | None \<Rightarrow> Inr (map (\<lambda>c. \<lparr>dataset = foldl append_c
                                     (if use_disk self then CacheDiskList [] else MemList []) (kept self c),
                                 logged = entries self c\<rparr>) chunks))"
proof (induction chunks)
  case Nil
  then show ?case by simp
next
  case (Cons c chunks)
  show ?case
    using Cons prepare_chunk_result[of self c]
    by (cases "first_fatal self c") (simp_all add: first_fatal_append split: option.splits)
qed

lemma kept_concat: "kept self (concat chunks) = concat (map (kept self) chunks)"
  by (induction chunks) (simp_all add: kept_append)

lemma entries_concat: "entries self (concat chunks) = concat (map (entries self) chunks)"
  by (induction chunks) (simp_all add: entries_append)

lemma Subset_concat: "concat (map (Subset data) chunks) = Subset data (concat chunks)"
  by (induction chunks) (simp_all add: Subset_def)

lemma get_chunks_concat:
  assumes "1 \<le> W" "W \<le> int (length data)"
  shows "\<exists>chunks. get_chunks W data = Inr chunks \<and> concat chunks = data \<and> chunks \<noteq> []"
proof -
  obtain ix where ix: "get_chunk_indices W (length data) = Inr ix" "concat ix = [0..<length data]"
    using get_chunk_indices_partition[OF assms] by blast
  have "concat (map (Subset data) ix) = data"
    unfolding Subset_concat ix(2) by (simp add: Subset_def map_nth)
  moreover have "ix \<noteq> []"
  proof
    assume "ix = []"
    then have "[0..<length data] = []" using ix(2) by simp
    then show False using assms by simp
  qed
  ultimately show ?thesis using ix(1) by (simp add: get_chunks_def)
qed

text \<open>
  Where \<open>_get_chunks\<close> returns, merging reproduces the sequential order: for at least one
  worker, and with either merge (concatenation of in-memory results in chunk order, or
  the first disk-backed result extended by the later ones in order), the merged samples
  of \<open>_run_parrallel\<close> over \<open>_prepare_chunk\<close>, and the log records of the workers taken
  in chunk order, are those of one sequential \<open>_prepare_chunk\<close> over the whole dataset; an
  exception that escapes a worker is the one the sequential run raises.
\<close>

lemma run_parrallel_sequential_order:
  assumes "1 \<le> featurization_jobs self"
  shows "map_sum id (\<lambda>(d, logs). (items d, concat logs))
           (run_parrallel self (prepare_chunk self) data disk) =
         (if int (length data) < featurization_jobs self then Inl ZeroDivisionError
          else map_sum id (\<lambda>r. (items (dataset r), logged r)) (prepare_chunk self data))"
proof (cases "int (length data) < featurization_jobs self")
  case True
  then show ?thesis using assms
    by (simp add: run_parrallel_def get_chunks_def get_chunk_indices_small)
next
  case False
  then obtain chunks where c: "get_chunks (featurization_jobs self) data = Inr chunks"
      "concat chunks = data" "chunks \<noteq> []"
    using get_chunks_concat[of "featurization_jobs self" data] assms by auto
  obtain c0 cs where cc: "chunks = c0 # cs" using c(3) by (cases chunks) auto
  show ?thesis
  proof (cases "first_fatal self data")
    case (Some e)
    then show ?thesis using False c
      by (simp add: run_parrallel_def future_results_prepare_chunk prepare_chunk_result)
  next
    case None
    have k: "kept self data = concat (map (kept self) chunks)"
      using kept_concat[of self chunks] c(2) by simp
    have l: "entries self data = concat (map (entries self) chunks)"
      using entries_concat[of self chunks] c(2) by simp
    let ?e = "if use_disk self then CacheDiskList [] else MemList []"
    let ?r = "\<lambda>c. \<lparr>dataset = foldl append_c ?e (kept self c), logged = entries self c\<rparr>"
    have fr: "future_results (map (prepare_chunk self) chunks) = Inr (map ?r chunks)"
      using future_results_prepare_chunk[of self chunks] None c(2) by simp
    have seq: "prepare_chunk self data = Inr (?r data)"
      using prepare_chunk_result[of self data] None by simp
    have par: "map_sum id (\<lambda>(d, logs). (items d, concat logs))
                 (run_parrallel self (prepare_chunk self) data disk)
               = Inr (concat (map (kept self) chunks), concat (map (entries self) chunks))"
      apply (simp only: run_parrallel_def c(1) sum.case)
      apply (simp only: fr sum.case)
      apply (cases disk)
       apply (simp_all add: cc items_foldl_extend_c items_foldl_append_c comp_def)
      done
    show ?thesis using False unfolding par seq
      by (simp add: k l items_foldl_append_c)
  qed
qed

section \<open>Texts: hexadecimal digits and \<open>repr\<close> of a string\<close>

text \<open>
  A \<open>string\<close> stands for a Python \<open>str\<close> whose characters are the code points
  \<open>0 .. 255\<close>.
\<close>

definition hex_digit :: "nat \<Rightarrow> char" where
  "hex_digit d = ''0123456789abcdef'' ! d"

definition hex_byte :: "nat \<Rightarrow> string" where
  "hex_byte b = [hex_digit (b div 16), hex_digit (b mod 16)]"

fun join :: "string \<Rightarrow> string list \<Rightarrow> string" where
  "join sep [] = []"
| "join sep [x] = x"
| "join sep (x # y # rest) = x @ sep @ join sep (y # rest)"

text \<open>
  \<open>repr(s)\<close> of CPython: single quotes unless the string holds a single quote and no
  double quote; the quote and the backslash are escaped, tab, newline and carriage
  return are written \<open>\t\<close>, \<open>\n\<close>, \<open>\r\<close>, and every other character that is not printable
  (below the space, \<open>0x7f\<close> to \<open>0xa0\<close>, \<open>0xad\<close>) as \<open>\xhh\<close>.
\<close>

definition repr_char :: "char \<Rightarrow> char \<Rightarrow> string" where
  "repr_char quote c =
     (if c = quote \<or> c = CHR 0x5C then [CHR 0x5C, c]
      else if c = CHR 0x09 then [CHR 0x5C, CHR ''t'']
      else if c = CHR 0x0A then [CHR 0x5C, CHR ''n'']
      else if c = CHR 0x0D then [CHR 0x5C, CHR ''r'']
      else if (of_char c :: nat) < 32 \<or> (127 \<le> (of_char c :: nat) \<and> (of_char c :: nat) \<le> 160)
              \<or> (of_char c :: nat) = 173
        then [CHR 0x5C, CHR ''x''] @ hex_byte (of_char c)
      else [c])"

definition py_repr :: "string \<Rightarrow> string" where
  "py_repr s =
     (let quote = (if CHR 0x27 \<in> set s \<and> CHR 0x22 \<notin> set s then CHR 0x22 else CHR 0x27)
      in [quote] @ concat (map (repr_char quote) s) @ [quote])"

section \<open>Paths and the file system\<close>

text \<open>
  \<open>pathlib.PurePosixPath\<close>: a path is its root (\<open>""\<close>, \<open>"/"\<close>, or \<open>"//"\<close> for exactly two
  leading slashes) and its parts; a text is split at every slash, and empty parts and
  \<open>"."\<close> are dropped (\<open>".."\<close> is kept). \<open>p / s\<close> is the path of \<open>s\<close> when \<open>s\<close> has a root,
  else \<open>p\<close> followed by the parts of \<open>s\<close>.
\<close>

datatype path = Path (root: string) (parts: "string list")

fun split_slash :: "string \<Rightarrow> string \<Rightarrow> string list" where
  "split_slash part [] = [part]"
| "split_slash part (c # cs) =
     (if c = CHR ''/'' then part # split_slash [] cs else split_slash (part @ [c]) cs)"

definition root_of :: "string \<Rightarrow> string" where
  "root_of s =
     (if take 2 s = ''//'' \<and> take 3 s \<noteq> ''///'' then ''//''
      else if take 1 s = ''/'' then ''/''
      else [])"

definition parse_path :: "string \<Rightarrow> path" where
  "parse_path s = Path (root_of s) (filter (\<lambda>part. part \<noteq> [] \<and> part \<noteq> ''.'') (split_slash [] s))"

definition join_path :: "path \<Rightarrow> string \<Rightarrow> path" where
  "join_path p s =
     (let q = parse_path s
      in if root q \<noteq> [] then q else Path (root p) (parts p @ parts q))"

definition str_path :: "path \<Rightarrow> string" where
  "str_path p = (if root p = [] \<and> parts p = [] then ''.'' else root p @ join ''/'' (parts p))"

text \<open>
  The file system as far as \<open>_load_dataset\<close> uses it: the directories and the files
  that exist, each named by its location, that is the path left once every \<open>".."\<close> has
  been followed (a relative location may begin with \<open>".."\<close> parts, above the working
  directory). The root, the working directory and the directories above it exist.
  Symbolic links, permissions and the limits of the device are not modelled. A file made
  by \<open>open(filename, "wb")\<close> is empty until \<open>pickle.dump\<close> has written the value.
\<close>

datatype 'v pkl_file = Empty | Pickled 'v

record 'v filesystem =
  dirs :: "path set"
  files :: "path \<rightharpoonup> 'v pkl_file"

definition is_dir :: "('v, 'z) filesystem_scheme \<Rightarrow> path \<Rightarrow> bool" where
  "is_dir fs d =
     (parts d = [] \<or> (root d = [] \<and> list_all (\<lambda>part. part = ''..'') (parts d)) \<or> d \<in> dirs fs)"

definition enter :: "path \<Rightarrow> string \<Rightarrow> path" where
  "enter d part =
     (if part = ''..'' then
        (if parts d = [] then (if root d = [] then Path [] [''..''] else d)
         else if last (parts d) = ''..'' then Path (root d) (parts d @ [''..''])
         else Path (root d) (butlast (parts d)))
      else Path (root d) (parts d @ [part]))"

datatype errno = ENOENT | ENOTDIR | EISDIR

fun walk :: "('v, 'z) filesystem_scheme \<Rightarrow> path \<Rightarrow> string list \<Rightarrow> errno + path" where
  "walk fs d [] = Inr d"
| "walk fs d (part # rest) =
     (let d' = enter d part
      in if is_dir fs d' then walk fs d' rest
         else if files fs d' \<noteq> None then Inl ENOTDIR
         else Inl ENOENT)"

definition start_dir :: "path \<Rightarrow> path" where
  "start_dir p = Path (if root p = [] then [] else ''/'') []"

text \<open>
  \<open>locate fs p\<close>: the directory that holds the last part of \<open>p\<close> once every part before
  it has been followed through existing directories, and from there the location that
  \<open>p\<close> names.
\<close>

definition locate :: "('v, 'z) filesystem_scheme \<Rightarrow> path \<Rightarrow> errno + path" where
  "locate fs p =
     (if parts p = [] then Inr (start_dir p)
      else case walk fs (start_dir p) (butlast (parts p)) of
             Inl e \<Rightarrow> Inl e
           | Inr d \<Rightarrow> Inr (enter d (last (parts p))))"

definition path_exists :: "('v, 'z) filesystem_scheme \<Rightarrow> path \<Rightarrow> bool" where
  "path_exists fs p =
     (case locate fs p of
        Inl e \<Rightarrow> False
      | Inr t \<Rightarrow> is_dir fs t \<or> files fs t \<noteq> None)"

text \<open>
  \<open>OSError\<close> of a failed \<open>open\<close>: \<open>str(e)\<close> is \<open>[Errno n] text: 'filename'\<close>. No handler of
  \<open>_load_dataset\<close> formats a traceback, and the exceptions that this model raises itself
  carry none.
\<close>

definition os_error :: "errno \<Rightarrow> path \<Rightarrow> exc" where
  "os_error e p =
     Exc OtherException
       ((case e of
           ENOENT \<Rightarrow> ''[Errno 2] No such file or directory: ''
         | ENOTDIR \<Rightarrow> ''[Errno 20] Not a directory: ''
         | EISDIR \<Rightarrow> ''[Errno 21] Is a directory: '') @ py_repr (str_path p))
       []"

definition key_error :: "string \<Rightarrow> exc" where
  "key_error k = Exc OtherException (py_repr k) []"

section \<open>FilePreprocessor\<close>

text \<open>
  \<^verbatim>\<open>
  class FilePreprocessor(AbstractPreprocessor):
      def __init__(self, config, folder_path, feature_to_save, input_to_use_has_filename,
                   overwrite=False):
          super().__init__(config)
          self.folder_name = Path(folder_path)
          self.feature_to_save = feature_to_save
          self.input_to_use_has_filename = input_to_use_has_filename
          self.overwrite = overwrite
          for input_field_filename in self.input_to_use_has_filename:
              folder = self.folder_name / input_field_filename
              folder.mkdir(exist_ok=True, parents=True)
  \<close>
\<close>

record 'v file_preprocessor = "'v preprocessor" +
  folder_name :: path
  feature_to_save :: "string list"
  input_to_use_has_filename :: "string list"
  overwrite :: bool

text \<open>
  The state that \<open>_load_dataset\<close> changes: the file system, the records of the root
  logger, and the samples that were passed to \<open>self.preprocess\<close>, in order (kept to tell
  whether the transform chain ran). The progress display is left out.
\<close>

record 'v file_state = "'v filesystem" +
  file_log :: "'v log_entry list"
  preprocessed :: "'v datapoint list"

text \<open>
  \<^verbatim>\<open>
  filenames = []
  for input_field_filename in self.input_to_use_has_filename:
      filenames.append(
          self.folder_name / input_field_filename / f"{sample.inputs[input_field_filename]}.pkl")
  \<close>
  A missing input field raises \<open>KeyError\<close> outside the \<open>try\<close>: it ends the run.
  \<open>str_value\<close> is \<open>str\<close> on the values of the input fields.
\<close>

fun filenames ::
  "('v \<Rightarrow> string) \<Rightarrow> 'v file_preprocessor \<Rightarrow> 'v datapoint \<Rightarrow> string list \<Rightarrow> error + path list" where
  "filenames str_value self sample [] = Inr []"
| "filenames str_value self sample (input_field_filename # field_names) =
     (case map_of (inputs sample) input_field_filename of
        None \<Rightarrow> Inl (KeyError input_field_filename)
      | Some v \<Rightarrow>
          (case filenames str_value self sample field_names of
             Inl e \<Rightarrow> Inl e
           | Inr rest \<Rightarrow>
               Inr (join_path (join_path (folder_name self) input_field_filename)
                      (str_value v @ ''.pkl'') # rest)))"

text \<open>
  \<^verbatim>\<open>
  with open(filename, "wb") as file:
      pickle.dump(outputs.inputs[output_name], file)
  \<close>
  \<open>open\<close> comes first: it fails when a directory on the way does not exist or the name is
  a directory, else it makes the file or empties it; then a missing feature raises
  \<open>KeyError\<close> and leaves the file empty.
\<close>

definition open_wb ::
  "('v, 'z) filesystem_scheme \<Rightarrow> path \<Rightarrow> exc + path \<times> ('v, 'z) filesystem_scheme" where
  "open_wb fs filename =
     (case locate fs filename of
        Inl e \<Rightarrow> Inl (os_error e filename)
      | Inr t \<Rightarrow>
          if is_dir fs t then Inl (os_error EISDIR filename)
          else Inr (t, fs\<lparr>files := (files fs)(t \<mapsto> Empty)\<rparr>))"

fun save_features ::
  "(string \<times> path) list \<Rightarrow> 'v datapoint \<Rightarrow> ('v, 'z) filesystem_scheme
   \<Rightarrow> exc option \<times> ('v, 'z) filesystem_scheme" where
  "save_features [] outputs fs = (None, fs)"
| "save_features ((output_name, filename) # rest) outputs fs =
     (case open_wb fs filename of
        Inl e \<Rightarrow> (Some e, fs)
      | Inr (t, opened) \<Rightarrow>
          (case map_of (inputs outputs) output_name of
             None \<Rightarrow> (Some (key_error output_name), opened)
           | Some v \<Rightarrow>
               save_features rest outputs (opened\<lparr>files := (files opened)(t \<mapsto> Pickled v)\<rparr>)))"

text \<open>
  \<^verbatim>\<open>
  except FeaturizationError as e:
      logging.warning(e)
  except Exception as e:
      logging.debug(f"{sample} {smiles} - {e}")
  \<close>
\<close>

definition file_except ::
  "'v file_state \<Rightarrow> 'v datapoint \<Rightarrow> 'v part \<Rightarrow> exc \<Rightarrow> error + 'v file_state" where
  "file_except st sample smiles e =
     (case exc_class e of
        FeaturizationError \<Rightarrow> Inr (st\<lparr>file_log := file_log st @ [(WARNING, [PExc e])]\<rparr>)
      | OtherException \<Rightarrow>
          Inr (st\<lparr>file_log := file_log st @
                [(DEBUG, [PSample sample, PText '' '', smiles, PText '' - '', PExc e])]\<rparr>)
      | BaseExceptionOnly \<Rightarrow> Inl (Propagated e))"

text \<open>
  The body of the loop of \<open>_load_dataset\<close> for one sample:
  \<^verbatim>\<open>
  smiles = sample.inputs["smiles"] if "smiles" in sample.inputs else ""
  filenames = ...
  if not self.overwrite and all([filename.exists() for filename in filenames]):
      continue
  try:
      outputs = self.preprocess(sample)
      for output_name, filename in zip(self.feature_to_save, filenames):
          with open(filename, "wb") as file:
              pickle.dump(outputs.inputs[output_name], file)
  except FeaturizationError as e: ...
  except Exception as e: ...
  \<close>
\<close>

definition file_sample ::
  "('v \<Rightarrow> string) \<Rightarrow> 'v file_preprocessor \<Rightarrow> 'v file_state \<Rightarrow> 'v datapoint \<Rightarrow> error + 'v file_state" where
  "file_sample str_value self st sample =
     (let smiles = smiles_of sample in
      case filenames str_value self sample (input_to_use_has_filename self) of
        Inl e \<Rightarrow> Inl e
      | Inr fns \<Rightarrow>
          if \<not> overwrite self \<and> list_all (path_exists st) fns then Inr st
          else
            let st1 = st\<lparr>preprocessed := preprocessed st @ [sample]\<rparr> in
            (case preprocess self sample of
               (Some e, sample') \<Rightarrow> file_except st1 sample' smiles e
             | (None, outputs) \<Rightarrow>
                 (case save_features (zip (feature_to_save self) fns) outputs st1 of
                    (None, st2) \<Rightarrow> Inr st2
                  | (Some e, st2) \<Rightarrow> file_except st2 outputs smiles e)))"

fun load_dataset ::
  "('v \<Rightarrow> string) \<Rightarrow> 'v file_preprocessor \<Rightarrow> 'v datapoint list \<Rightarrow> 'v file_state \<Rightarrow> error + 'v file_state" where
  "load_dataset str_value self [] st = Inr st"
| "load_dataset str_value self (sample # loader) st =
     (case file_sample str_value self st sample of
        Inl e \<Rightarrow> Inl e
      | Inr st' \<Rightarrow> load_dataset str_value self loader st')"



lemma file_sample_run:
  assumes "filenames str_value self s (input_to_use_has_filename self) = Inr fns"
    and "\<not> (\<not> overwrite self \<and> list_all (path_exists st) fns)"
  shows "file_sample str_value self st s =
     (case preprocess self s of
        (Some e, sample') \<Rightarrow>
          file_except (st\<lparr>preprocessed := preprocessed st @ [s]\<rparr>) sample' (smiles_of s) e
      | (None, outputs) \<Rightarrow>
          (case save_features (zip (feature_to_save self) fns) outputs
                  (st\<lparr>preprocessed := preprocessed st @ [s]\<rparr>) of
             (None, st2) \<Rightarrow> Inr st2
           | (Some e, st2) \<Rightarrow> file_except st2 outputs (smiles_of s) e))"
  unfolding file_sample_def Let_def
  apply (simp only: assms sum.case if_False)
  done


section \<open>The scenario of ten samples\<close>

definition scenario_stage :: "string stage" where
  "scenario_stage s =
     (if ident s = 3 \<or> ident s = 7 then (Some (Exc FeaturizationError ''boom'' ''trace''), s)
      else (None, s))"

definition scenario_preprocessor :: "string cache_preprocessor" where
  "scenario_preprocessor =
     \<lparr>featurization_jobs = 4, featurizers = [scenario_stage], transformers = [], use_disk = False\<rparr>"

definition scenario_loader :: "string datapoint list" where
  "scenario_loader = map (\<lambda>i. \<lparr>ident = i, inputs = [(''smiles'', ''C'')]\<rparr>) [0, 1, 2, 3, 4, 5, 6, 7, 8, 9]"

lemma scenario_preprocess:
  "preprocess scenario_preprocessor s = scenario_stage s"
  by (simp add: preprocess_def featurize_def apply_transformers_def scenario_preprocessor_def
      scenario_stage_def)

lemma scenario_use_disk: "use_disk scenario_preprocessor = False"
  by (simp add: scenario_preprocessor_def)


text \<open>
  C4, amended. A recoverable featurization failure is logged as a warning made of the
  exception's text and the captured trace, \<open>f"{e}\\n{tb_str}"\<close>; the sample is dropped and
  the loop goes on. For a loader whose samples succeed or raise \<open>FeaturizationError\<close>,
  the output is the transformed samples that succeeded, in order, and the log is one
  warning per failure, in order; their numbers add up to the number of samples.
\<close>

theorem prepare_chunk_recoverable:
  assumes "\<forall>s\<in>set loader. \<forall>e. fst (preprocess self s) = Some e \<longrightarrow> exc_class e = FeaturizationError"
  shows "\<exists>r. prepare_chunk self loader = Inr r
     \<and> items (dataset r) = [snd (preprocess self s). s \<leftarrow> loader, fst (preprocess self s) = None]
     \<and> logged r = map (\<lambda>e. (WARNING, [PExc e, PText newline, PText (trace e)]))
                     (List.map_filter (\<lambda>s. fst (preprocess self s)) loader)
     \<and> length (items (dataset r)) + length (logged r) = length loader"
proof -
  have ff: "first_fatal self loader = None" using assms
    by (induction loader) (auto split: option.splits)
  have en: "entries self loader = map (\<lambda>e. (WARNING, [PExc e, PText newline, PText (trace e)]))
                     (List.map_filter (\<lambda>s. fst (preprocess self s)) loader)" using assms
  proof (induction loader)
    case Nil
    then show ?case by (simp add: map_filter_simps)
  next
    case (Cons s loader)
    obtain r s' where p: "preprocess self s = (r, s')" by (cases "preprocess self s")
    show ?case using Cons p
      by (cases r) (auto simp: map_filter_simps entry_of_def warning_entry_def)
  qed
  have len: "length (kept self loader) + length (List.map_filter (\<lambda>s. fst (preprocess self s)) loader)
      = length loader"
    by (induction loader) (auto simp: map_filter_simps split: option.splits)
  show ?thesis
    using prepare_chunk_result[of self loader] ff en len
    by (simp add: items_foldl_append_c kept_def)
qed

theorem prepare_chunk_recoverable_witness:
  "\<exists>r. prepare_chunk scenario_preprocessor scenario_loader = Inr r
     \<and> map ident (items (dataset r)) = [0, 1, 2, 4, 5, 6, 8, 9]
     \<and> length (items (dataset r)) = 8
     \<and> logged r = [(WARNING, [PExc (Exc FeaturizationError ''boom'' ''trace''), PText newline, PText ''trace'']),
                   (WARNING, [PExc (Exc FeaturizationError ''boom'' ''trace''), PText newline, PText ''trace''])]"
proof -
  have h: "\<forall>s\<in>set scenario_loader. \<forall>e. fst (preprocess scenario_preprocessor s) = Some e
             \<longrightarrow> exc_class e = FeaturizationError"
    by (simp add: scenario_preprocess scenario_stage_def)
  from prepare_chunk_recoverable[OF h] obtain r where
    r: "prepare_chunk scenario_preprocessor scenario_loader = Inr r"
    and i: "items (dataset r) = [snd (preprocess scenario_preprocessor s). s \<leftarrow> scenario_loader,
               fst (preprocess scenario_preprocessor s) = None]"
    and l: "logged r = map (\<lambda>e. (WARNING, [PExc e, PText newline, PText (trace e)]))
               (List.map_filter (\<lambda>s. fst (preprocess scenario_preprocessor s)) scenario_loader)"
    by blast
  have i': "map ident (items (dataset r)) = [0, 1, 2, 4, 5, 6, 8, 9]"
    unfolding i by (simp add: scenario_preprocess scenario_stage_def scenario_loader_def)
  have "length (map ident (items (dataset r))) = 8" unfolding i' by simp
  then have n: "length (items (dataset r)) = 8" by simp
  have l': "logged r = [(WARNING, [PExc (Exc FeaturizationError ''boom'' ''trace''), PText newline, PText ''trace'']),
                   (WARNING, [PExc (Exc FeaturizationError ''boom'' ''trace''), PText newline, PText ''trace''])]"
    unfolding l
    by (simp add: scenario_preprocess scenario_stage_def scenario_loader_def map_filter_simps)
  show ?thesis by (rule exI[of _ r]) (simp add: r i' n l')
qed

text \<open>
  C4, as the claim states it, fails: the warning holds no input identifier. In the
  scenario of the spec the two warnings for the samples 3 and 7 are the same text,
  which names neither sample.
\<close>

theorem warning_without_identifier_counterexample:
  "map_sum id (\<lambda>r. map (entry_text (\<lambda>s. ''sample'') id) (logged r))
       (prepare_chunk scenario_preprocessor scenario_loader)
     = Inr [''boom'' @ newline @ ''trace'', ''boom'' @ newline @ ''trace'']
   \<and> \<not> sublist ''3'' (''boom'' @ newline @ ''trace'')
   \<and> \<not> sublist ''7'' (''boom'' @ newline @ ''trace'')"
  by (simp add: prepare_chunk_def prepare_sample_def scenario_preprocess scenario_stage_def
      scenario_loader_def scenario_use_disk entry_text_def render_part_def newline_def
      sublist_Cons_right)


lemma run_parrallel_sequential_order_example:
  "1 \<le> featurization_jobs scenario_preprocessor
   \<and> map_sum id (\<lambda>(d, logs). (map ident (items d), map length logs))
        (run_parrallel scenario_preprocessor (prepare_chunk scenario_preprocessor) scenario_loader True)
     = Inr ([0, 1, 2, 4, 5, 6, 8, 9], [0, 1, 0, 1, 0])
   \<and> map_sum id (\<lambda>(d, logs). (items d, concat logs))
        (run_parrallel scenario_preprocessor (prepare_chunk scenario_preprocessor) scenario_loader True)
     = map_sum id (\<lambda>r. (items (dataset r), logged r))
        (prepare_chunk scenario_preprocessor scenario_loader)"
proof -
  have h: "1 \<le> featurization_jobs scenario_preprocessor"
    by (simp add: scenario_preprocessor_def)
  have n: "\<not> int (length scenario_loader) < featurization_jobs scenario_preprocessor"
    by (simp add: scenario_preprocessor_def scenario_loader_def)
  have c: "get_chunks (featurization_jobs scenario_preprocessor) scenario_loader
      = Inr [take 2 scenario_loader, take 2 (drop 2 scenario_loader), take 2 (drop 4 scenario_loader),
             take 2 (drop 6 scenario_loader), drop 8 scenario_loader]"
    by (simp add: scenario_preprocessor_def scenario_loader_def get_chunks_def get_chunk_indices_def
        py_range_def py_slice_def py_clamp_def upt_rec Subset_def)
  have e: "map_sum id (\<lambda>(d, logs). (map ident (items d), map length logs))
        (run_parrallel scenario_preprocessor (prepare_chunk scenario_preprocessor) scenario_loader True)
     = Inr ([0, 1, 2, 4, 5, 6, 8, 9], [0, 1, 0, 1, 0])"
    unfolding run_parrallel_def c
    by (simp add: prepare_chunk_def prepare_sample_def scenario_preprocess scenario_stage_def
        scenario_loader_def scenario_use_disk extend_c_def append_c_def)
  show ?thesis
    using run_parrallel_sequential_order[OF h, of scenario_loader True] h n e by simp
qed

definition scenario_disk_preprocessor :: "string cache_preprocessor" where
  "scenario_disk_preprocessor = scenario_preprocessor\<lparr>use_disk := True\<rparr>"

lemma scenario_disk_preprocess:
  "preprocess scenario_disk_preprocessor s = scenario_stage s"
  by (simp add: preprocess_def featurize_def apply_transformers_def scenario_disk_preprocessor_def
      scenario_preprocessor_def scenario_stage_def)

text \<open>
  The disk-backed merge on the scenario: every worker returns a \<open>CacheDiskList\<close>, the first
  is extended by the others in order.
\<close>

lemma run_parrallel_disk_example:
  "map_sum id (\<lambda>(d, logs). (case d of MemList xs \<Rightarrow> None | CacheDiskList xs \<Rightarrow> Some (map ident xs)))
        (run_parrallel scenario_disk_preprocessor (prepare_chunk scenario_disk_preprocessor)
           scenario_loader True)
     = Inr (Some [0, 1, 2, 4, 5, 6, 8, 9])"
proof -
  have c: "get_chunks (featurization_jobs scenario_disk_preprocessor) scenario_loader
      = Inr [take 2 scenario_loader, take 2 (drop 2 scenario_loader), take 2 (drop 4 scenario_loader),
             take 2 (drop 6 scenario_loader), drop 8 scenario_loader]"
    by (simp add: scenario_disk_preprocessor_def scenario_preprocessor_def scenario_loader_def
        get_chunks_def get_chunk_indices_def py_range_def py_slice_def py_clamp_def upt_rec Subset_def)
  have u: "use_disk scenario_disk_preprocessor = True"
    by (simp add: scenario_disk_preprocessor_def)
  show ?thesis
    unfolding run_parrallel_def c
    by (simp add: prepare_chunk_def prepare_sample_def scenario_disk_preprocess scenario_stage_def
        scenario_loader_def u extend_c_def append_c_def)
qed

text \<open>
  C5. The claim: for any dataset and transform chain the merged dataset of the parallel
  run has the sample order of a sequential run. For a dataset with fewer samples than
  workers there is no merged dataset: \<open>_run_parrallel\<close> raises the \<open>ZeroDivisionError\<close> of
  \<open>_get_chunks\<close>, with either merge, where the sequential \<open>_prepare_chunk\<close> returns the
  samples. Here the first three samples of the scenario and its four workers.
\<close>

theorem run_parrallel_three_samples_four_jobs:
  "run_parrallel scenario_preprocessor (prepare_chunk scenario_preprocessor)
     (take 3 scenario_loader) False = Inl ZeroDivisionError
   \<and> run_parrallel scenario_disk_preprocessor (prepare_chunk scenario_disk_preprocessor)
     (take 3 scenario_loader) True = Inl ZeroDivisionError
   \<and> map_sum id (\<lambda>r. map ident (items (dataset r)))
        (prepare_chunk scenario_preprocessor (take 3 scenario_loader)) = Inr [0, 1, 2]"
  by (simp add: run_parrallel_def get_chunks_def get_chunk_indices_def scenario_loader_def
      scenario_preprocessor_def scenario_disk_preprocessor_def prepare_chunk_def prepare_sample_def
      preprocess_def featurize_def apply_transformers_def scenario_stage_def append_c_def)


section \<open>A stage that fails unexpectedly on one sample\<close>

definition unexpected_stage :: "string stage" where
  "unexpected_stage s =
     (if ident s = 1 then (Some (Exc OtherException ''bad'' ''trace''), s)
      else (None, s\<lparr>inputs := inputs s @ [(''feature'', ''F'')]\<rparr>))"

definition unexpected_cache :: "string cache_preprocessor" where
  "unexpected_cache =
     \<lparr>featurization_jobs = 4, featurizers = [unexpected_stage], transformers = [], use_disk = False\<rparr>"

definition unexpected_file :: "string file_preprocessor" where
  "unexpected_file =
     \<lparr>featurization_jobs = 4, featurizers = [unexpected_stage], transformers = [],
      folder_name = parse_path ''out'', feature_to_save = [''feature''],
      input_to_use_has_filename = [''smiles''], overwrite = False\<rparr>"

definition sample_of :: "int \<Rightarrow> string \<Rightarrow> string datapoint" where
  "sample_of i smiles = \<lparr>ident = i, inputs = [(''smiles'', smiles)]\<rparr>"

text \<open>
  The state that \<open>__init__\<close> of \<open>unexpected_file\<close> leaves on an empty working directory:
  \<open>mkdir(parents=True)\<close> has made \<open>out\<close> and \<open>out/smiles\<close>.
\<close>

definition no_files :: "string file_state" where
  "no_files =
     \<lparr>dirs = {Path [] [''out''], Path [] [''out'', ''smiles'']}, files = Map.empty,
      file_log = [], preprocessed = []\<rparr>"

lemma unexpected_cache_preprocess: "preprocess unexpected_cache s = unexpected_stage s"
  by (simp add: preprocess_def featurize_def apply_transformers_def unexpected_cache_def
      unexpected_stage_def)

lemma unexpected_file_preprocess: "preprocess unexpected_file s = unexpected_stage s"
  by (simp add: preprocess_def featurize_def apply_transformers_def unexpected_file_def
      unexpected_stage_def)

lemma unexpected_file_fields:
  "folder_name unexpected_file = Path [] [''out'']" "feature_to_save unexpected_file = [''feature'']"
  "input_to_use_has_filename unexpected_file = [''smiles'']" "overwrite unexpected_file = False"
  by (simp_all add: unexpected_file_def parse_path_def root_of_def)

lemmas path_eval = join_path_def parse_path_def root_of_def locate_def start_dir_def enter_def
  is_dir_def path_exists_def open_wb_def

lemma pkl_CCO: "join_path (join_path (Path [] [''out'']) ''smiles'') ''CCO.pkl''
    = Path [] [''out'', ''smiles'', ''CCO.pkl'']"
  by (simp add: path_eval)

lemma pkl_CCN: "join_path (join_path (Path [] [''out'']) ''smiles'') ''CCN.pkl''
    = Path [] [''out'', ''smiles'', ''CCN.pkl'']"
  by (simp add: path_eval)


text \<open>
  C8, amended. An exception that derives from \<open>Exception\<close> and is not a
  \<open>FeaturizationError\<close>, raised by the transform of one sample: in
  \<open>CachePreprocessor._prepare_chunk\<close> it is logged as an error,
  \<open>f"{sample} {smiles} - {e}\\n{tb_str}"\<close>, the sample is not appended and the loop goes on
  with the next sample; in \<open>FilePreprocessor._load_dataset\<close> it is logged at debug level,
  \<open>f"{sample} {smiles} - {e}"\<close> without the trace, no file is written for the sample and
  the loop goes on.
\<close>

theorem other_exception_policy:
  "(preprocess self s = (Some e, s') \<and> exc_class e = OtherException
      \<longrightarrow> prepare_loop self st (s # rest) =
          prepare_loop self
            (st\<lparr>logged := logged st @
                 [(ERROR, [PSample s', PText '' '', smiles_of s, PText '' - '', PExc e,
                           PText newline, PText (trace e)])]\<rparr>) rest)
   \<and> (preprocess fself s = (Some e, s') \<and> exc_class e = OtherException
       \<and> filenames str_value fself s (input_to_use_has_filename fself) = Inr fns
       \<and> \<not> (\<not> overwrite fself \<and> list_all (path_exists fstate) fns)
      \<longrightarrow> load_dataset str_value fself (s # rest) fstate =
          load_dataset str_value fself rest
            (fstate\<lparr>preprocessed := preprocessed fstate @ [s],
                 file_log := file_log fstate @
                   [(DEBUG, [PSample s', PText '' '', smiles_of s, PText '' - '', PExc e])]\<rparr>))"
proof (intro conjI impI)
  assume "preprocess self s = (Some e, s') \<and> exc_class e = OtherException"
  then show "prepare_loop self st (s # rest) =
          prepare_loop self
            (st\<lparr>logged := logged st @
                 [(ERROR, [PSample s', PText '' '', smiles_of s, PText '' - '', PExc e,
                           PText newline, PText (trace e)])]\<rparr>) rest"
    by (simp add: prepare_sample_def)
next
  assume a: "preprocess fself s = (Some e, s') \<and> exc_class e = OtherException
       \<and> filenames str_value fself s (input_to_use_has_filename fself) = Inr fns
       \<and> \<not> (\<not> overwrite fself \<and> list_all (path_exists fstate) fns)"
  then have f: "filenames str_value fself s (input_to_use_has_filename fself) = Inr fns"
    and n: "\<not> (\<not> overwrite fself \<and> list_all (path_exists fstate) fns)" by blast+
  have "file_sample str_value fself fstate s =
      Inr (fstate\<lparr>preprocessed := preprocessed fstate @ [s],
                 file_log := file_log fstate @
                   [(DEBUG, [PSample s', PText '' '', smiles_of s, PText '' - '', PExc e])]\<rparr>)"
    using a unfolding file_sample_run[OF f n] by (simp add: file_except_def)
  then show "load_dataset str_value fself (s # rest) fstate =
          load_dataset str_value fself rest
            (fstate\<lparr>preprocessed := preprocessed fstate @ [s],
                 file_log := file_log fstate @
                   [(DEBUG, [PSample s', PText '' '', smiles_of s, PText '' - '', PExc e])]\<rparr>)"
    by simp
qed

theorem other_exception_policy_witness:
  "map_sum id (\<lambda>r. (map ident (items (dataset r)), logged r))
      (prepare_chunk unexpected_cache [sample_of 1 ''CCO'', sample_of 2 ''CCN''])
     = Inr ([2], [(ERROR, [PSample (sample_of 1 ''CCO''), PText '' '', PValue ''CCO'', PText '' - '',
                            PExc (Exc OtherException ''bad'' ''trace''), PText newline, PText ''trace''])])
   \<and> map_sum id (\<lambda>st. (file_log st, map ident (preprocessed st),
                        files st (Path [] [''out'', ''smiles'', ''CCO.pkl'']),
                        files st (Path [] [''out'', ''smiles'', ''CCN.pkl''])))
      (load_dataset id unexpected_file [sample_of 1 ''CCO'', sample_of 2 ''CCN''] no_files)
     = Inr ([(DEBUG, [PSample (sample_of 1 ''CCO''), PText '' '', PValue ''CCO'', PText '' - '',
                      PExc (Exc OtherException ''bad'' ''trace'')])],
            [1, 2], None, Some (Pickled ''F''))"
proof -
  let ?e = "Exc OtherException ''bad'' ''trace''"
  let ?s = "sample_of 1 ''CCO''"
  let ?p = "Path [] [''out'', ''smiles'', ''CCO.pkl'']"
  have p1: "preprocess unexpected_cache ?s = (Some ?e, ?s) \<and> exc_class ?e = OtherException"
    by (simp add: unexpected_cache_preprocess unexpected_stage_def sample_of_def)
  have p2: "preprocess unexpected_file ?s = (Some ?e, ?s) \<and> exc_class ?e = OtherException
       \<and> filenames id unexpected_file ?s (input_to_use_has_filename unexpected_file) = Inr [?p]
       \<and> \<not> (\<not> overwrite unexpected_file \<and> list_all (path_exists no_files) [?p])"
    by (simp add: unexpected_file_preprocess unexpected_stage_def sample_of_def
        unexpected_file_fields no_files_def pkl_CCO path_exists_def locate_def start_dir_def
        enter_def is_dir_def)
  note t = other_exception_policy[of unexpected_cache ?s ?e ?s
      "\<lparr>dataset = MemList [], logged = []\<rparr>" "[sample_of 2 ''CCN'']"
      unexpected_file id "[?p]" no_files]
  have a: "prepare_chunk unexpected_cache [?s, sample_of 2 ''CCN''] =
      prepare_loop unexpected_cache
        (\<lparr>dataset = MemList [], logged = []\<rparr>\<lparr>logged := logged \<lparr>dataset = MemList [], logged = []\<rparr> @
           [(ERROR, [PSample ?s, PText '' '', smiles_of ?s, PText '' - '', PExc ?e,
                     PText newline, PText (trace ?e)])]\<rparr>) [sample_of 2 ''CCN'']"
    using t p1 by (simp add: prepare_chunk_def unexpected_cache_def)
  have b: "load_dataset id unexpected_file [?s, sample_of 2 ''CCN''] no_files =
      load_dataset id unexpected_file [sample_of 2 ''CCN'']
        (no_files\<lparr>preprocessed := preprocessed no_files @ [?s],
                 file_log := file_log no_files @
                   [(DEBUG, [PSample ?s, PText '' '', smiles_of ?s, PText '' - '', PExc ?e])]\<rparr>)"
    using t p2 by blast
  show ?thesis
    unfolding a b
    by (simp add: prepare_sample_def unexpected_cache_preprocess unexpected_file_preprocess
        unexpected_stage_def sample_of_def smiles_of_def file_sample_def unexpected_file_fields
        no_files_def pkl_CCN path_exists_def locate_def start_dir_def enter_def is_dir_def
        open_wb_def)
qed

text \<open>
  C8, as the claim states it, fails for the per-sample loop of \<open>FilePreprocessor\<close>: the
  record is a debug record, not an error, and holds no trace.
\<close>

theorem file_preprocessor_debug_counterexample:
  "map_sum id file_log (load_dataset id unexpected_file [sample_of 1 ''CCO''] no_files)
     = Inr [(DEBUG, [PSample (sample_of 1 ''CCO''), PText '' '', PValue ''CCO'', PText '' - '',
                     PExc (Exc OtherException ''bad'' ''trace'')])]
   \<and> DEBUG \<noteq> ERROR
   \<and> PText ''trace'' \<notin> set [PSample (sample_of 1 ''CCO''), PText '' '', PValue ''CCO'', PText '' - '',
                     PExc (Exc OtherException ''bad'' ''trace'')]"
  by (simp add: file_sample_def unexpected_file_preprocess unexpected_stage_def sample_of_def
      smiles_of_def unexpected_file_fields no_files_def file_except_def pkl_CCO
      path_exists_def locate_def start_dir_def enter_def is_dir_def)

section \<open>Re-running the file preparation\<close>















text \<open>
  An input value with a slash names a file in a directory that \<open>__init__\<close> has not made:
  \<open>open\<close> raises \<open>FileNotFoundError\<close>, which is logged at debug level, nothing is written,
  and every run transforms the sample again.
\<close>

lemma slash_value_never_written:
  "map_sum id (\<lambda>st. (map fst (file_log st), map ident (preprocessed st),
                      files st (Path [] [''out'', ''smiles'', ''F'', ''C=C'', ''F.pkl''])))
     (load_dataset id unexpected_file [sample_of 0 ''F/C=C/F''] no_files)
   = Inr ([DEBUG], [0], None)"
  by (simp add: file_sample_def unexpected_file_preprocess unexpected_stage_def sample_of_def
      smiles_of_def unexpected_file_fields no_files_def file_except_def os_error_def
      path_eval)

section \<open>CacheManager: the cache key\<close>

text \<open>
  \<^verbatim>\<open>src/lib/core/helpers.py\<close>, lines 142 to 153:

  \<^verbatim>\<open>def _sort(self, dictionary: Dict[str, Any]) -> Dict[str, Any]:\<close>
  \<^verbatim>\<open>    for key, value in dictionary.items():\<close>
  \<^verbatim>\<open>        if type(value) is dict:\<close>
  \<^verbatim>\<open>            dictionary[key] = self._sort(value)\<close>
  \<^verbatim>\<open>    return dict(sorted(dictionary.items()))\<close>

  \<^verbatim>\<open>def key(self, **kwargs) -> str:\<close>
  \<^verbatim>\<open>    options = self._sort(kwargs)\<close>
  \<^verbatim>\<open>    options = json.dumps(options)\<close>
  \<^verbatim>\<open>    return hashlib.md5(options.encode("utf-8")).hexdigest()\<close>

  The key is a function of the text that \<open>json.dumps\<close> writes, and the text follows the
  insertion order of every dict it meets. Three library functions are therefore part
  of the model: \<open>sorted\<close> on the items of a dict, \<open>json.dumps\<close> with its default arguments, and
  \<open>hashlib.md5\<close>.
\<close>

subsection \<open>hashlib.md5\<close>

text \<open>
  The MD5 digest of RFC 1321 over 32-bit words, written over \<open>nat\<close> with the reduction
  modulo \<open>2 ^ 32\<close> spelled out: the table of sines \<open>md5_K\<close>, the shifts \<open>md5_s\<close>, the four round
  functions \<open>md5_F\<close> with their message index \<open>md5_g\<close>, 64 steps for each block of 64 bytes,
  the padding (one byte 128, zero bytes up to 56 modulo 64, the bit length on 8 bytes,
  little-endian), and the digest as 32 lower-case hexadecimal digits.
\<close>

definition md5_K :: "nat list" where
  "md5_K =
     [0xd76aa478, 0xe8c7b756, 0x242070db, 0xc1bdceee,
      0xf57c0faf, 0x4787c62a, 0xa8304613, 0xfd469501,
      0x698098d8, 0x8b44f7af, 0xffff5bb1, 0x895cd7be,
      0x6b901122, 0xfd987193, 0xa679438e, 0x49b40821,
      0xf61e2562, 0xc040b340, 0x265e5a51, 0xe9b6c7aa,
      0xd62f105d, 0x02441453, 0xd8a1e681, 0xe7d3fbc8,
      0x21e1cde6, 0xc33707d6, 0xf4d50d87, 0x455a14ed,
      0xa9e3e905, 0xfcefa3f8, 0x676f02d9, 0x8d2a4c8a,
      0xfffa3942, 0x8771f681, 0x6d9d6122, 0xfde5380c,
      0xa4beea44, 0x4bdecfa9, 0xf6bb4b60, 0xbebfbc70,
      0x289b7ec6, 0xeaa127fa, 0xd4ef3085, 0x04881d05,
      0xd9d4d039, 0xe6db99e5, 0x1fa27cf8, 0xc4ac5665,
      0xf4292244, 0x432aff97, 0xab9423a7, 0xfc93a039,
      0x655b59c3, 0x8f0ccc92, 0xffeff47d, 0x85845dd1,
      0x6fa87e4f, 0xfe2ce6e0, 0xa3014314, 0x4e0811a1,
      0xf7537e82, 0xbd3af235, 0x2ad7d2bb, 0xeb86d391]"

definition md5_s :: "nat list" where
  "md5_s =
     [7, 12, 17, 22, 7, 12, 17, 22, 7, 12, 17, 22, 7, 12, 17, 22,
      5, 9, 14, 20, 5, 9, 14, 20, 5, 9, 14, 20, 5, 9, 14, 20,
      4, 11, 16, 23, 4, 11, 16, 23, 4, 11, 16, 23, 4, 11, 16, 23,
      6, 10, 15, 21, 6, 10, 15, 21, 6, 10, 15, 21, 6, 10, 15, 21]"

definition add32 :: "nat \<Rightarrow> nat \<Rightarrow> nat" where
  "add32 a b = (a + b) mod 4294967296"

definition not32 :: "nat \<Rightarrow> nat" where
  "not32 a = 4294967295 - a"

definition rotl32 :: "nat \<Rightarrow> nat \<Rightarrow> nat" where
  "rotl32 n w = (w * 2 ^ n) mod 4294967296 + w div 2 ^ (32 - n)"

definition md5_F :: "nat \<Rightarrow> nat \<Rightarrow> nat \<Rightarrow> nat \<Rightarrow> nat" where
  "md5_F i B C D =
     (if i < 16 then (B AND C) OR (not32 B AND D)
      else if i < 32 then (D AND B) OR (not32 D AND C)
      else if i < 48 then B XOR C XOR D
      else C XOR (B OR not32 D))"

definition md5_g :: "nat \<Rightarrow> nat" where
  "md5_g i =
     (if i < 16 then i
      else if i < 32 then (5 * i + 1) mod 16
      else if i < 48 then (3 * i + 5) mod 16
      else (7 * i) mod 16)"

type_synonym md5_state = "nat \<times> nat \<times> nat \<times> nat"

fun md5_step :: "nat list \<Rightarrow> md5_state \<Rightarrow> nat \<Rightarrow> md5_state" where
  "md5_step M (A, B, C, D) i =
     (D,
      add32 B (rotl32 (md5_s ! i)
                 (add32 (add32 (add32 (md5_F i B C D) A) (md5_K ! i)) (M ! md5_g i))),
      B, C)"

definition le_word :: "nat list \<Rightarrow> nat" where
  "le_word bs = bs ! 0 + 256 * bs ! 1 + 65536 * bs ! 2 + 16777216 * bs ! 3"

fun le_words :: "nat \<Rightarrow> nat list \<Rightarrow> nat list" where
  "le_words 0 bs = []"
| "le_words (Suc n) bs = le_word (take 4 bs) # le_words n (drop 4 bs)"

definition md5_rounds :: "nat list" where
  "md5_rounds =
     [0, 1, 2, 3, 4, 5, 6, 7, 8, 9, 10, 11, 12, 13, 14, 15]
     @ [16, 17, 18, 19, 20, 21, 22, 23, 24, 25, 26, 27, 28, 29, 30, 31]
     @ [32, 33, 34, 35, 36, 37, 38, 39, 40, 41, 42, 43, 44, 45, 46, 47]
     @ [48, 49, 50, 51, 52, 53, 54, 55, 56, 57, 58, 59, 60, 61, 62, 63]"

fun md5_add :: "md5_state \<Rightarrow> md5_state \<Rightarrow> md5_state" where
  "md5_add (a0, b0, c0, d0) (A, B, C, D) = (add32 a0 A, add32 b0 B, add32 c0 C, add32 d0 D)"

definition md5_block :: "md5_state \<Rightarrow> nat list \<Rightarrow> md5_state" where
  "md5_block st block = md5_add st (foldl (md5_step (le_words 16 block)) st md5_rounds)"

definition md5_length_bytes :: "int \<Rightarrow> nat list" where
  "md5_length_bytes bits = map (\<lambda>i. nat ((bits div 256 ^ i) mod 256)) [0, 1, 2, 3, 4, 5, 6, 7]"

definition md5_pad :: "nat list \<Rightarrow> nat list" where
  "md5_pad msg =
     msg @ [128] @ replicate (nat ((55 - int (length msg)) mod 64)) 0
         @ md5_length_bytes (8 * int (length msg))"

fun md5_blocks :: "nat \<Rightarrow> md5_state \<Rightarrow> nat list \<Rightarrow> md5_state" where
  "md5_blocks 0 st bs = st"
| "md5_blocks (Suc n) st bs = md5_blocks n (md5_block st (take 64 bs)) (drop 64 bs)"

definition word_bytes :: "nat \<Rightarrow> nat list" where
  "word_bytes w = [w mod 256, (w div 256) mod 256, (w div 65536) mod 256, (w div 16777216) mod 256]"

fun md5_hex :: "md5_state \<Rightarrow> string" where
  "md5_hex (a, b, c, d) = concat (map hex_byte (word_bytes a @ word_bytes b @ word_bytes c @ word_bytes d))"

definition md5_digest_bytes :: "nat list \<Rightarrow> string" where
  "md5_digest_bytes bs =
     md5_hex (md5_blocks (nat (int (length bs) div 64))
                (0x67452301, 0xefcdab89, 0x98badcfe, 0x10325476) bs)"

definition md5_hexdigest :: "string \<Rightarrow> string" where
  "md5_hexdigest text = md5_digest_bytes (md5_pad (map of_char text))"

lemma replicate_numeral_unfold: "replicate (numeral k) x = x # replicate (pred_numeral k) x"
  by (simp add: numeral_eq_Suc)

lemma le_words_numeral:
  "le_words (numeral k) bs = le_word (take 4 bs) # le_words (pred_numeral k) (drop 4 bs)"
  by (simp add: numeral_eq_Suc)

lemma md5_blocks_numeral:
  "md5_blocks (numeral k) st bs = md5_blocks (pred_numeral k) (md5_block st (take 64 bs)) (drop 64 bs)"
  by (simp add: numeral_eq_Suc)

lemmas md5_eval = md5_hexdigest_def md5_digest_bytes_def md5_pad_def md5_length_bytes_def
  md5_block_def le_word_def md5_F_def md5_g_def
  md5_K_def md5_s_def md5_rounds_def rotl32_def add32_def not32_def hex_byte_def hex_digit_def
  word_bytes_def replicate_numeral_unfold le_words_numeral md5_blocks_numeral

text \<open>The test suite of RFC 1321, section A.5: the digest of \<open>abc\<close>.\<close>

lemma md5_hexdigest_abc: "md5_hexdigest ''abc'' = ''900150983cd24fb0d6963f7d28e17f72''"
  by (simp add: md5_eval)

subsection \<open>Parameter values\<close>

text \<open>
  The values that a configuration file gives to \<open>key\<close>: \<open>None\<close>, booleans, integers, strings,
  lists and dicts with string keys. A dict is the list of its items in insertion order,
  which is the order \<open>dict.items()\<close> and \<open>json.dumps\<close> follow.
\<close>

datatype json =
    JNull
  | JBool bool
  | JInt int
  | JStr string
  | JList "json list"
  | JDict "(string \<times> json) list"

text \<open>
  \<open>_sort\<close>: a value is sorted only when \<open>type(value) is dict\<close>; every other value, a list
  included, is kept as it is, so a dict that is an element of a list is never visited.
  \<open>sorted(dictionary.items())\<close> orders the items by key (the keys of a dict are distinct,
  so the values are never compared), and \<open>dict(...)\<close> keeps that order.
\<close>

primrec sort_value :: "json \<Rightarrow> json" where
  "sort_value JNull = JNull"
| "sort_value (JBool b) = JBool b"
| "sort_value (JInt i) = JInt i"
| "sort_value (JStr s) = JStr s"
| "sort_value (JList xs) = JList xs"
| "sort_value (JDict d) = JDict (sort_key fst (map (map_prod id sort_value) d))"

definition CacheManager_sort :: "(string \<times> json) list \<Rightarrow> (string \<times> json) list" where
  "CacheManager_sort dictionary = sort_key fst (map (map_prod id sort_value) dictionary)"

text \<open>
  \<open>json.dumps\<close> with its default arguments: separators \<open>", "\<close> and \<open>": "\<close>, items in
  insertion order, \<open>ensure_ascii\<close> set, so that the quote, the backslash and the control
  characters are escaped and every character outside the range from space to tilde
  is written as a backslash, \<open>u00\<close> and its two hexadecimal digits. The text is ASCII, and its UTF-8 encoding is the list of its
  character codes.
\<close>

definition digit_char :: "nat \<Rightarrow> char" where
  "digit_char d = ''0123456789'' ! d"

fun str_nat :: "nat \<Rightarrow> string" where
  "str_nat n = (if n < 10 then [digit_char n] else str_nat (n div 10) @ [digit_char (n mod 10)])"

declare str_nat.simps [simp del]

definition str_int :: "int \<Rightarrow> string" where
  "str_int i = (if i < 0 then ''-'' @ str_nat (nat (- i)) else str_nat (nat i))"

definition escape_char :: "char \<Rightarrow> string" where
  "escape_char c =
     (if c = CHR 0x22 then [CHR 0x5C, CHR 0x22]
      else if c = CHR 0x5C then [CHR 0x5C, CHR 0x5C]
      else if c = CHR 0x0A then [CHR 0x5C, CHR ''n'']
      else if c = CHR 0x0D then [CHR 0x5C, CHR ''r'']
      else if c = CHR 0x09 then [CHR 0x5C, CHR ''t'']
      else if c = CHR 0x08 then [CHR 0x5C, CHR ''b'']
      else if c = CHR 0x0C then [CHR 0x5C, CHR ''f'']
      else if (of_char c :: nat) < 32 \<or> 126 < (of_char c :: nat)
        then [CHR 0x5C, CHR ''u'', CHR ''0'', CHR ''0''] @ hex_byte (of_char c)
      else [c])"

definition encode_string :: "string \<Rightarrow> string" where
  "encode_string s = [CHR 0x22] @ concat (map escape_char s) @ [CHR 0x22]"

primrec dumps :: "json \<Rightarrow> string" where
  "dumps JNull = ''null''"
| "dumps (JBool b) = (if b then ''true'' else ''false'')"
| "dumps (JInt i) = str_int i"
| "dumps (JStr s) = encode_string s"
| "dumps (JList xs) = ''['' @ join '', '' (map dumps xs) @ '']''"
| "dumps (JDict d) =
     ''{'' @ join '', '' (map (\<lambda>kv. encode_string (fst kv) @ '': '' @ snd kv) (map (map_prod id dumps) d))
       @ ''}''"

definition CacheManager_key :: "(string \<times> json) list \<Rightarrow> string" where
  "CacheManager_key kwargs = md5_hexdigest (dumps (JDict (CacheManager_sort kwargs)))"

subsection \<open>Reordering the keys of maps\<close>

text \<open>
  Two readings of "differ only in the ordering of keys inside maps". In
  \<open>reordered_in_dicts\<close> the reordered maps are the parameter map and the maps that are
  values of a reordered map, at any depth. In \<open>reordered_anywhere\<close> a reordered map may
  also be an element of a list, at any depth. \<open>distinct_keys\<close> holds of every Python dict:
  no key occurs twice in a map.
\<close>

inductive reordered_in_dicts :: "json \<Rightarrow> json \<Rightarrow> bool" where
  same: "reordered_in_dicts v v"
| dict: "list_all2 (rel_prod (=) reordered_in_dicts) xs ys \<Longrightarrow> mset ys = mset zs
         \<Longrightarrow> reordered_in_dicts (JDict xs) (JDict zs)"

inductive reordered_anywhere :: "json \<Rightarrow> json \<Rightarrow> bool" where
  same: "reordered_anywhere v v"
| dict: "list_all2 (rel_prod (=) reordered_anywhere) xs ys \<Longrightarrow> mset ys = mset zs
         \<Longrightarrow> reordered_anywhere (JDict xs) (JDict zs)"
| list: "list_all2 reordered_anywhere xs ys \<Longrightarrow> reordered_anywhere (JList xs) (JList ys)"

primrec distinct_keys :: "json \<Rightarrow> bool" where
  "distinct_keys JNull = True"
| "distinct_keys (JBool b) = True"
| "distinct_keys (JInt i) = True"
| "distinct_keys (JStr s) = True"
| "distinct_keys (JList xs) = True"
| "distinct_keys (JDict d) = (distinct (map fst d) \<and> list_all id (map snd (map (map_prod id distinct_keys) d)))"

lemma filter_key_distinct:
  "distinct (map fst xs) \<Longrightarrow> k \<in> set xs \<Longrightarrow> filter (\<lambda>x. fst k = fst x) xs = [k]"
proof (induction xs)
  case Nil
  then show ?case by simp
next
  case (Cons x xs)
  show ?case
  proof (cases "k = x")
    case True
    have "filter (\<lambda>y. fst x = fst y) xs = []"
      using Cons.prems(1) by (auto simp: filter_empty_conv)
    then show ?thesis using True by simp
  next
    case False
    then have k: "k \<in> set xs" using Cons.prems(2) by simp
    then have "fst k \<in> fst ` set xs" by (rule imageI)
    moreover have "fst x \<notin> fst ` set xs" using Cons.prems(1) by simp
    ultimately have "fst k \<noteq> fst x" by metis
    then show ?thesis using Cons.IH k Cons.prems(1) by simp
  qed
qed

lemma sort_key_mset_distinct:
  assumes "mset xs = mset ys" "distinct (map fst xs)"
  shows "sort_key fst xs = sort_key fst ys"
proof (rule properties_for_sort_key)
  show "mset (sort_key fst ys) = mset xs" using assms(1) by simp
  show "sorted (map fst (sort_key fst ys))" by simp
  fix k assume k: "k \<in> set (sort_key fst ys)"
  have s: "set xs = set ys" using assms(1) by (rule mset_eq_setD)
  have dy: "distinct (map fst ys)"
    using assms by (metis distinct_map mset_eq_imp_distinct_iff mset_map set_mset_mset inj_on_cong) 
  have d2: "distinct (map fst (sort_key fst ys))" using dy
    by (metis distinct_map distinct_sort set_sort mset_sort mset_map mset_eq_imp_distinct_iff)
  have "filter (\<lambda>x. fst k = fst x) (sort_key fst ys) = [k]"
    using filter_key_distinct[OF d2 k] .
  moreover have "filter (\<lambda>x. fst k = fst x) xs = [k]"
    using filter_key_distinct[OF assms(2)] k s by simp
  ultimately show "filter (\<lambda>x. fst k = fst x) (sort_key fst ys) = filter (\<lambda>x. fst k = fst x) xs"
    by simp
qed

lemma sort_value_reordered:
  "reordered_in_dicts v w \<Longrightarrow> distinct_keys v \<Longrightarrow> sort_value v = sort_value w"
proof (induction rule: reordered_in_dicts.induct)
  case (same v)
  then show ?case by simp
next
  case (dict xs ys zs)
  have d: "distinct (map fst xs)" and dv: "\<forall>kv\<in>set xs. distinct_keys (snd kv)"
    using dict.prems by (auto simp: list_all_iff)
  have l: "list_all2 (rel_prod (=) (\<lambda>v w. reordered_in_dicts v w
              \<and> (distinct_keys v \<longrightarrow> sort_value v = sort_value w))) xs ys"
    using dict by simp
  have ms: "mset ys = mset zs" using dict by simp
  have m: "map (map_prod id sort_value) xs = map (map_prod id sort_value) ys"
    using l dv
  proof (induction xs ys rule: list_all2_induct)
    case Nil
    then show ?case by simp
  next
    case (Cons x xs y ys)
    then show ?case by (cases x; cases y) auto
  qed
  have "mset (map (map_prod id sort_value) xs) = mset (map (map_prod id sort_value) zs)"
    unfolding m using ms by (metis mset_map)
  moreover have "distinct (map fst (map (map_prod id sort_value) xs))"
    using d by (simp add: comp_def)
  ultimately show ?case by (simp add: sort_key_mset_distinct)
qed

subsection \<open>Two pairs of parameter maps\<close>

text \<open>
  \<open>nested_A\<close> and \<open>nested_B\<close> hold the same entries, in another order at both levels.
  \<open>listed_A\<close> and \<open>listed_B\<close> differ in the key order of a map that is an element of a
  list, as the featurizers and transformers of a configuration are.
\<close>

definition nested_A :: "(string \<times> json) list" where
  "nested_A = [(''loader'', JDict [(''type'', JStr ''csv''), (''path'', JStr ''data.csv'')]),
               (''seed'', JInt 7)]"

definition nested_B :: "(string \<times> json) list" where
  "nested_B = [(''seed'', JInt 7),
               (''loader'', JDict [(''path'', JStr ''data.csv''), (''type'', JStr ''csv'')])]"

definition listed_A :: "(string \<times> json) list" where
  "listed_A = [(''featurizers'', JList [JDict [(''a'', JInt 1), (''b'', JInt 2)]])]"

definition listed_B :: "(string \<times> json) list" where
  "listed_B = [(''featurizers'', JList [JDict [(''b'', JInt 2), (''a'', JInt 1)]])]"

lemmas dumps_eval = CacheManager_key_def CacheManager_sort_def encode_string_def escape_char_def
  str_int_def str_nat.simps digit_char_def

lemma listed_A_dumps:
  "dumps (JDict (CacheManager_sort listed_A)) = ''{\"featurizers\": [{\"a\": 1, \"b\": 2}]}''"
  by (simp add: listed_A_def dumps_eval)

lemma listed_B_dumps:
  "dumps (JDict (CacheManager_sort listed_B)) = ''{\"featurizers\": [{\"b\": 2, \"a\": 1}]}''"
  by (simp add: listed_B_def dumps_eval)

lemma listed_A_key: "CacheManager_key listed_A = ''56c43af054d0c505d3dd12f14428254d''"
  unfolding CacheManager_key_def listed_A_dumps by (simp add: md5_eval)

lemma listed_B_key: "CacheManager_key listed_B = ''2b9cd512a19055ad1f4c675d1cd66227''"
  unfolding CacheManager_key_def listed_B_dumps by (simp add: md5_eval)

lemma listed_reordered: "reordered_anywhere (JDict listed_A) (JDict listed_B)"
proof -
  have inner: "reordered_anywhere (JDict [(''a'', JInt 1), (''b'', JInt 2)])
                 (JDict [(''b'', JInt 2), (''a'', JInt 1)])"
    by (rule reordered_anywhere.dict[where ys = "[(''a'', JInt 1), (''b'', JInt 2)]"])
       (simp_all add: reordered_anywhere.same)
  have "reordered_anywhere (JList [JDict [(''a'', JInt 1), (''b'', JInt 2)]])
          (JList [JDict [(''b'', JInt 2), (''a'', JInt 1)]])"
    by (rule reordered_anywhere.list) (simp add: inner)
  then show ?thesis
    unfolding listed_A_def listed_B_def
    by (intro reordered_anywhere.dict[where ys = "[(''featurizers'', JList [JDict [(''b'', JInt 2), (''a'', JInt 1)]])]"])
       simp_all
qed

lemma nested_reordered: "reordered_in_dicts (JDict nested_A) (JDict nested_B)"
proof -
  have inner: "reordered_in_dicts (JDict [(''type'', JStr ''csv''), (''path'', JStr ''data.csv'')])
                 (JDict [(''path'', JStr ''data.csv''), (''type'', JStr ''csv'')])"
    by (rule reordered_in_dicts.dict[where ys = "[(''type'', JStr ''csv''), (''path'', JStr ''data.csv'')]"])
       (simp_all add: reordered_in_dicts.same)
  show ?thesis
    unfolding nested_A_def nested_B_def
    by (rule reordered_in_dicts.dict[where ys = "[(''loader'', JDict [(''path'', JStr ''data.csv''), (''type'', JStr ''csv'')]), (''seed'', JInt 7)]"])
       (simp_all add: inner reordered_in_dicts.same)
qed

text \<open>
  C1, as a general statement, fails: \<open>listed_A\<close> and \<open>listed_B\<close> differ only in the order of
  the keys of a map, and their keys differ. \<open>_sort\<close> leaves both lists as they are, so
  \<open>json.dumps\<close> writes \<^verbatim>\<open>{"featurizers": [{"a": 1, "b": 2}]}\<close> for the first and
  \<^verbatim>\<open>{"featurizers": [{"b": 2, "a": 1}]}\<close> for the second.
\<close>

theorem key_depends_on_order_inside_lists_counterexample:
  "reordered_anywhere (JDict listed_A) (JDict listed_B)
   \<and> CacheManager_key listed_A = ''56c43af054d0c505d3dd12f14428254d''
   \<and> CacheManager_key listed_B = ''2b9cd512a19055ad1f4c675d1cd66227''
   \<and> CacheManager_key listed_A \<noteq> CacheManager_key listed_B"
  by (simp add: listed_reordered listed_A_key listed_B_key)

text \<open>
  C1, amended: for all parameter maps \<open>A\<close> and \<open>B\<close> that differ only in the ordering of keys
  inside the parameter map and inside maps that are values of such maps, at any depth,
  \<open>CacheManager.key(A)\<close> equals \<open>CacheManager.key(B)\<close>.
\<close>

theorem key_independent_of_dict_key_order:
  assumes "distinct_keys (JDict A)" "reordered_in_dicts (JDict A) (JDict B)"
  shows "CacheManager_key A = CacheManager_key B"
  using sort_value_reordered[OF assms(2,1)] by (simp add: CacheManager_key_def CacheManager_sort_def)

theorem key_independent_of_dict_key_order_witness:
  "distinct_keys (JDict nested_A) \<and> reordered_in_dicts (JDict nested_A) (JDict nested_B)
   \<and> nested_A \<noteq> nested_B \<and> CacheManager_key nested_A = CacheManager_key nested_B"
proof -
  have d: "distinct_keys (JDict nested_A)" by (simp add: nested_A_def)
  have n: "nested_A \<noteq> nested_B" by (simp add: nested_A_def nested_B_def)
  show ?thesis
    using key_independent_of_dict_key_order[OF d nested_reordered] d n nested_reordered by simp
qed

section \<open>SuperFactory\<close>

text \<open>
  \<^verbatim>\<open>src/lib/core/helpers.py\<close>, lines 32 to 131. \<open>SuperFactory.create\<close> reads a dict of
  parameters, picks a class and calls it with the parameters as keyword arguments. The
  model holds what the function looks at: dicts in insertion order, the dict objects
  of the caller as cells of a heap (so that a write to one of them would show), the
  tree of subclasses, the names that the code object of \<open>__init__\<close> lists, and the
  annotations of \<open>__init__\<close>. The four calls of \<open>logging.debug\<close> that open \<open>create\<close> and
  the two that open \<open>reflect\<close> write texts only and are left out.
\<close>

subsection \<open>Dicts\<close>

text \<open>
  A dict with string keys is the list of its items in insertion order, the keys
  distinct. \<open>dict_set k v d\<close> is \<open>d[k] = v\<close>: a key that is present keeps its place, a new
  key comes last. \<open>dict_merge a b\<close> is \<^verbatim>\<open>{**a, **b}\<close>: the items of \<open>b\<close> are set in order.
  \<open>dict_pop k d\<close> is \<open>d\<close> after \<open>d.pop(k)\<close> for a key that is present, and \<open>d\<close> itself
  otherwise.
\<close>

type_synonym 'v dict = "(string \<times> 'v) list"

fun dict_set :: "string \<Rightarrow> 'v \<Rightarrow> 'v dict \<Rightarrow> 'v dict" where
  "dict_set k v [] = [(k, v)]"
| "dict_set k v (kv # d) = (if fst kv = k then (fst kv, v) # d else kv # dict_set k v d)"

fun dict_merge :: "'v dict \<Rightarrow> 'v dict \<Rightarrow> 'v dict" where
  "dict_merge a [] = a"
| "dict_merge a (kv # b) = dict_merge (dict_set (fst kv) (snd kv) a) b"

fun dict_pop :: "string \<Rightarrow> 'v dict \<Rightarrow> 'v dict" where
  "dict_pop k [] = []"
| "dict_pop k (kv # d) = (if fst kv = k then dict_pop k d else kv # dict_pop k d)"

subsection \<open>Values and the heap of dict objects\<close>

text \<open>
  The values of a parameter dict. A dict value is a reference \<open>VDict a\<close> to the cell \<open>a\<close>
  of the heap: two references to one cell are one Python object, and
  \<open>dynamic_parameters.copy()\<close> is a new cell. \<open>create\<close> has no operation on a list, so a list
  is a value. \<open>VObj name kwargs\<close> stands for the value of the call \<open>cls(**kwargs)\<close> of the
  class called \<open>name\<close>.
\<close>

type_synonym addr = nat

datatype pyval =
    VNone
  | VBool bool
  | VInt int
  | VStr string
  | VList "pyval list"
  | VDict addr
  | VObj string "pyval dict"

text \<open>
  The heap is the list of the dict objects made so far; a new object is appended. Every
  reference of a Python program points to an object; \<open>deref\<close> is total and gives the empty
  dict at an address beyond the heap.
\<close>

type_synonym heap = "pyval dict list"

definition deref :: "heap \<Rightarrow> addr \<Rightarrow> pyval dict" where
  "deref h a = (if a < length h then h ! a else [])"

subsection \<open>Classes\<close>

text \<open>
  The code object of a function \<open>__init__\<close> written in Python, as far as its names go: the
  first parameter, the further parameters that a call may give by position or by
  keyword (with the flag "has a default"), the keyword-only parameters, the names of
  \<open>*args\<close> and \<open>**kwargs\<close> if any, and the local variables of the body.
  \<open>__code__.co_varnames\<close> lists all of them, in this order. Positional-only parameters
  are not modelled.
\<close>

record code =
  self_arg :: string
  args :: "(string \<times> bool) list"
  kwonly :: "(string \<times> bool) list"
  varargs :: "string option"
  varkw :: "string option"
  local_vars :: "string list"

fun option_list :: "'a option \<Rightarrow> 'a list" where
  "option_list None = []"
| "option_list (Some x) = [x]"

definition co_varnames :: "code \<Rightarrow> string list" where
  "co_varnames c =
     self_arg c # map fst (args c) @ map fst (kwonly c) @ option_list (varargs c)
       @ option_list (varkw c) @ local_vars c"

text \<open>
  The binding of the call \<open>cls(**options)\<close> to \<open>__init__\<close>: a keyword is accepted when it
  names a parameter other than the first, or when the function has \<open>**kwargs\<close> and the
  keyword is not the name of the first parameter (which the instance fills); every
  parameter without a default must be given. Otherwise Python raises \<open>TypeError\<close>.
\<close>

definition keyword_names :: "code \<Rightarrow> string list" where
  "keyword_names c = map fst (args c) @ map fst (kwonly c)"

definition required_names :: "code \<Rightarrow> string list" where
  "required_names c = map fst (filter (\<lambda>p. \<not> snd p) (args c @ kwonly c))"

definition accepts :: "code \<Rightarrow> string \<Rightarrow> bool" where
  "accepts c k = (k \<noteq> self_arg c \<and> (k \<in> set (keyword_names c) \<or> varkw c \<noteq> None))"

definition binds :: "code \<Rightarrow> string list \<Rightarrow> bool" where
  "binds c names = (list_all (accepts c) names \<and> list_all (\<lambda>p. p \<in> set names) (required_names c))"

text \<open>
  A class: its \<open>__name__\<close>, its \<open>__subclasses__()\<close> in order, whether it has abstract methods
  left (a class of \<open>ABCMeta\<close> that cannot be instantiated), the code of the \<open>__init__\<close> that
  attribute lookup finds on it (\<open>None\<close> when that is not a Python function, as
  \<open>object.__init__\<close>: then it has no \<open>__code__\<close>), and \<open>__init__.__annotations__\<close>.

  An annotation, which is also what \<open>create\<close> receives as \<open>instantiator\<close>: \<open>None\<close>, a class,
  \<open>typing.Dict\<close> (the one whose \<open>_name\<close> is \<open>"Dict"\<close>), or \<open>Typing_hint\<close> for anything else
  (\<open>Optional[...]\<close>, \<open>List[...]\<close>, \<open>Literal[...]\<close>, a string). What \<open>create\<close> does with an
  instantiator that is not a class depends on the version of the \<open>typing\<close> module; the
  model stops there with \<open>Unmodelled\<close>. A class is a finite tree here: a class whose
  annotations mention the class itself is unfolded as deep as the parameters nest.
\<close>

datatype cls = Cls (cls_name: string) (subclasses: "cls list") (abstract: bool)
    (init_code: "code option") (init_hints: "hint dict")
and hint = None_hint | Class_hint cls | Dict_hint | Typing_hint

text \<open>
  \<open>instantiator(**options)\<close> for a class. A class with abstract methods raises
  \<open>TypeError\<close>; a class that inherits \<open>object.__init__\<close> takes no argument. The body of
  \<open>__init__\<close> is the code of the class, not of \<open>create\<close>: the model binds the arguments and
  takes the instance to be the class name with the keyword arguments of the call.
\<close>

definition instantiate :: "cls \<Rightarrow> pyval dict \<Rightarrow> error + pyval" where
  "instantiate c options =
     (if abstract c then Inl TypeError
      else case init_code c of
             None \<Rightarrow> if options = [] then Inr (VObj (cls_name c) []) else Inl TypeError
           | Some code \<Rightarrow>
               if binds code (map fst options) then Inr (VObj (cls_name c) options)
               else Inl TypeError)"

subsection \<open>find_descendants\<close>

text \<open>
  \<^verbatim>\<open>def find_descendants(parent: Type[T]) -> Dict[str, Type[T]]:\<close>
  \<^verbatim>\<open>    descendants = {}\<close>
  \<^verbatim>\<open>    for child in parent.__subclasses__():\<close>
  \<^verbatim>\<open>        descendants[child.__name__] = child\<close>
  \<^verbatim>\<open>        if len(child.__subclasses__()) > 0:\<close>
  \<^verbatim>\<open>            descendants = {**descendants, **SuperFactory.find_descendants(child)}\<close>
  \<^verbatim>\<open>    return descendants\<close>

  \<open>descend\<close> is the loop, with the dict built so far.
\<close>

fun find_descendants :: "cls \<Rightarrow> cls dict"
and descend :: "cls list \<Rightarrow> cls dict \<Rightarrow> cls dict" where
  "find_descendants (Cls n children ab ini hints) = descend children []"
| "descend [] descendants = descendants"
| "descend (child # rest) descendants =
     descend rest
       (if 0 < length (subclasses child)
        then dict_merge (dict_set (cls_name child) child descendants) (find_descendants child)
        else dict_set (cls_name child) child descendants)"

text \<open>
  All classes below a class in the tree of subclasses, whatever their names: the
  transitive descendants.
\<close>

fun all_descendants :: "cls \<Rightarrow> cls list" where
  "all_descendants (Cls n children ab ini hints) =
     concat (map (\<lambda>child. child # all_descendants child) children)"

subsection \<open>reflect\<close>

text \<open>
  \<^verbatim>\<open>def reflect(dependency: str) -> Type[Any]:\<close>
  \<^verbatim>\<open>    module_name, class_name = dependency.rsplit(".", 1)\<close>
  \<^verbatim>\<open>    module = importlib.import_module(module_name)\<close>
  \<^verbatim>\<open>    return getattr(module, class_name)\<close>

  \<open>rsplit_dot [] s\<close> cuts \<open>s\<close> at its last dot. The modules that can be imported are a
  table from dotted names to the classes they define. \<open>import_module\<close> raises
  \<open>ValueError\<close> for the empty name, \<open>TypeError\<close> for a relative name (no package is
  given) and \<open>ModuleNotFoundError\<close>, an \<open>ImportError\<close>, for a name that is not in the table;
  \<open>getattr\<close> raises \<open>AttributeError\<close>. Without a dot the unpacking of the one-element list
  raises \<open>ValueError\<close>.

  \<open>humps.pascalize\<close> comes from a package that is not part of the repository; it is the
  field \<open>pascalize\<close> of the world, and every general statement below holds for every such
  function.
\<close>

fun rsplit_dot :: "string \<Rightarrow> string \<Rightarrow> string \<times> string" where
  "rsplit_dot acc [] = ([], rev acc)"
| "rsplit_dot acc (c # cs) =
     (if c = CHR ''.'' \<and> CHR ''.'' \<notin> set cs then (rev acc, cs)
      else rsplit_dot (c # acc) cs)"

record world =
  pascalize :: "string \<Rightarrow> string"
  modules :: "(string \<times> cls dict) list"

definition import_module :: "world \<Rightarrow> string \<Rightarrow> error + cls dict" where
  "import_module w module_name =
     (if module_name = [] then Inl ValueError
      else if hd module_name = CHR ''.'' then Inl TypeError
      else case map_of (modules w) module_name of
             None \<Rightarrow> Inl (ImportError module_name)
           | Some m \<Rightarrow> Inr m)"

definition reflect :: "world \<Rightarrow> string \<Rightarrow> error + cls" where
  "reflect w dependency =
     (if CHR ''.'' \<notin> set dependency then Inl ValueError
      else case import_module w (fst (rsplit_dot [] dependency)) of
        Inl e \<Rightarrow> Inl e
      | Inr m \<Rightarrow>
          (case map_of m (snd (rsplit_dot [] dependency)) of
             None \<Rightarrow> Inl AttributeError
           | Some c \<Rightarrow> Inr c))"

subsection \<open>create\<close>

text \<open>
  \<^verbatim>\<open>dynamic_parameters = dynamic_parameters.copy()\<close>
  \<^verbatim>\<open>if "type" in dynamic_parameters:\<close>
  \<^verbatim>\<open>    dependency_type = dynamic_parameters.pop("type")\<close>
  \<^verbatim>\<open>    if "." in dependency_type:\<close>
  \<^verbatim>\<open>        instantiator = SuperFactory.reflect(dependency_type)\<close>
  \<^verbatim>\<open>    else:\<close>
  \<^verbatim>\<open>        if type(instantiator) is type(Union) and type(None) in instantiator.__args__:\<close>
  \<^verbatim>\<open>            instantiator = instantiator.__args__[0]\<close>
  \<^verbatim>\<open>        option_key = instantiator.__name__.replace("Abstract", "")\<close>
  \<^verbatim>\<open>        dependency_name = "{}_{}".format(dependency_type, option_key)\<close>
  \<^verbatim>\<open>        dependency_name = humps.pascalize(dependency_name)\<close>
  \<^verbatim>\<open>        subclasses = SuperFactory.find_descendants(instantiator)\<close>
  \<^verbatim>\<open>        if dependency_name not in subclasses:\<close>
  \<^verbatim>\<open>            raise ReflectionError("Dependency not found: {}. Available options are: {}".format(\<close>
  \<^verbatim>\<open>                dependency_name, subclasses.keys()))\<close>
  \<^verbatim>\<open>        instantiator = subclasses.get(dependency_name)\<close>

  \<open>replace_by_empty old s\<close> is \<open>s.replace(old, "")\<close>: every occurrence of \<open>old\<close>, from the
  left, is removed, wherever it stands. \<open>type(Union)\<close> is the type of no class (Python 3.7
  to 3.13), so the test on \<open>Union\<close> fails for every class. A discriminator that is \<open>None\<close>,
  a boolean or an integer makes \<open>"." in dependency_type\<close> raise \<open>TypeError\<close>; for a list, a
  dict or an object the name is built from \<open>str\<close> of the value, which the model does not
  hold (\<open>Unmodelled\<close>). With the instantiator \<open>None\<close>, \<open>instantiator.__name__\<close> raises
  \<open>AttributeError\<close>.
\<close>

function replace_by_empty :: "string \<Rightarrow> string \<Rightarrow> string" where
  "replace_by_empty old [] = []"
| "replace_by_empty old (c # cs) =
     (if old \<noteq> [] \<and> prefix old (c # cs)
      then replace_by_empty old (drop (length old) (c # cs))
      else c # replace_by_empty old cs)"
  by pat_completeness auto

termination
  by (relation "measure (\<lambda>p. length (snd p))") auto

definition dependency_name :: "world \<Rightarrow> string \<Rightarrow> cls \<Rightarrow> string" where
  "dependency_name w dependency_type instantiator =
     pascalize w (dependency_type @ ''_'' @ replace_by_empty ''Abstract'' (cls_name instantiator))"

definition select :: "world \<Rightarrow> string \<Rightarrow> cls \<Rightarrow> error + cls" where
  "select w dependency_type instantiator =
     (case map_of (find_descendants instantiator) (dependency_name w dependency_type instantiator) of
        None \<Rightarrow> Inl (DependencyNotFound (dependency_name w dependency_type instantiator)
                        (map fst (find_descendants instantiator)))
      | Some c \<Rightarrow> Inr c)"

fun resolve_type :: "world \<Rightarrow> hint \<Rightarrow> pyval \<Rightarrow> error + hint" where
  "resolve_type w instantiator (VStr dependency_type) =
     (if CHR ''.'' \<in> set dependency_type then map_sum id Class_hint (reflect w dependency_type)
      else case instantiator of
             Class_hint c \<Rightarrow> map_sum id Class_hint (select w dependency_type c)
           | None_hint \<Rightarrow> Inl AttributeError
           | Dict_hint \<Rightarrow> Inl Unmodelled
           | Typing_hint \<Rightarrow> Inl Unmodelled)"
| "resolve_type w instantiator VNone = Inl TypeError"
| "resolve_type w instantiator (VBool b) = Inl TypeError"
| "resolve_type w instantiator (VInt i) = Inl TypeError"
| "resolve_type w instantiator (VList xs) = Inl Unmodelled"
| "resolve_type w instantiator (VDict a) = Inl Unmodelled"
| "resolve_type w instantiator (VObj n kw) = Inl Unmodelled"

definition resolve :: "world \<Rightarrow> hint \<Rightarrow> pyval dict \<Rightarrow> error + hint" where
  "resolve w instantiator dynamic_parameters =
     (case map_of dynamic_parameters ''type'' of
        None \<Rightarrow> Inr instantiator
      | Some dependency_type \<Rightarrow> resolve_type w instantiator dependency_type)"

text \<open>
  \<^verbatim>\<open>if len(dynamic_parameters) > 0:\<close>
  \<^verbatim>\<open>    parameters = instantiator.__init__.__code__.co_varnames\<close>
  \<^verbatim>\<open>    attributes = instantiator.__init__.__annotations__\<close>
  \<^verbatim>\<open>    for option_name, option_value in dynamic_parameters.items():\<close>
  \<^verbatim>\<open>        if option_name not in parameters:\<close>
  \<^verbatim>\<open>            raise ReflectionError("Unknown option for [{}] ---> [{}]".format(\<close>
  \<^verbatim>\<open>                instantiator.__name__, option_name))\<close>
  \<^verbatim>\<open>        if option_name not in attributes:\<close>
  \<^verbatim>\<open>            continue\<close>
  \<^verbatim>\<open>        if (type(option_value) is dict\<close>
  \<^verbatim>\<open>                and not (hasattr(attributes[option_name], "_name")\<close>
  \<^verbatim>\<open>                         and attributes[option_name]._name == "Dict")):\<close>
  \<^verbatim>\<open>            dynamic_parameters[option_name] = SuperFactory.create(\<close>
  \<^verbatim>\<open>                attributes[option_name], option_value)\<close>
  \<^verbatim>\<open>options = dynamic_parameters\<close>
  \<^verbatim>\<open>if loaded_parameters is not None:\<close>
  \<^verbatim>\<open>    options = {**options, **loaded_parameters}\<close>
  \<^verbatim>\<open>return instantiator(**options)\<close>

  \<open>inject\<close> is the loop over the keys of the copy, which is the cell \<open>n\<close>; the value of a
  key is read from the cell when the key is reached. \<open>create_nested\<close> is \<open>create\<close> one frame
  deeper, without loaded parameters. \<open>construct\<close> is the part of \<open>create\<close> after the
  instantiator is known. A result is the value returned or the exception raised,
  with the heap as the call leaves it.

  \<open>create fuel\<close>: \<open>fuel\<close> is the number of nested calls of \<open>create\<close> that the recursion
  limit of the interpreter still allows; at none \<open>RecursionError\<close> is raised. A dict that
  holds itself is such a case.
\<close>

definition merge_loaded :: "heap \<Rightarrow> pyval dict \<Rightarrow> addr option \<Rightarrow> pyval dict" where
  "merge_loaded h options loaded =
     (case loaded of None \<Rightarrow> options | Some b \<Rightarrow> dict_merge options (deref h b))"

fun is_Dict :: "hint \<Rightarrow> bool" where
  "is_Dict Dict_hint = True"
| "is_Dict None_hint = False"
| "is_Dict (Class_hint c) = False"
| "is_Dict Typing_hint = False"

type_synonym result = "(error + pyval) \<times> heap"

fun inject ::
  "(hint \<Rightarrow> addr \<Rightarrow> heap \<Rightarrow> result) \<Rightarrow> string \<Rightarrow> string list \<Rightarrow> hint dict \<Rightarrow> addr \<Rightarrow> string list
     \<Rightarrow> heap \<Rightarrow> error option \<times> heap" where
  "inject create_nested name parameters attributes n [] h = (None, h)"
| "inject create_nested name parameters attributes n (option_name # rest) h =
     (if option_name \<notin> set parameters then (Some (UnknownOption name option_name), h)
      else case map_of attributes option_name of
             None \<Rightarrow> inject create_nested name parameters attributes n rest h
           | Some attribute \<Rightarrow>
               (case map_of (deref h n) option_name of
                  Some (VDict a) \<Rightarrow>
                    if is_Dict attribute
                    then inject create_nested name parameters attributes n rest h
                    else (case create_nested attribute a h of
                            (Inl e, h') \<Rightarrow> (Some e, h')
                          | (Inr object, h') \<Rightarrow>
                              inject create_nested name parameters attributes n rest
                                (h'[n := dict_set option_name object (deref h' n)]))
                | _ \<Rightarrow> inject create_nested name parameters attributes n rest h))"

fun construct ::
  "(hint \<Rightarrow> addr \<Rightarrow> heap \<Rightarrow> result) \<Rightarrow> hint \<Rightarrow> addr \<Rightarrow> addr option \<Rightarrow> heap \<Rightarrow> result" where
  "construct create_nested None_hint n loaded h =
     (if 0 < length (deref h n) then (Inl AttributeError, h) else (Inl TypeError, h))"
| "construct create_nested Dict_hint n loaded h = (Inl Unmodelled, h)"
| "construct create_nested Typing_hint n loaded h = (Inl Unmodelled, h)"
| "construct create_nested (Class_hint c) n loaded h =
     (if 0 < length (deref h n) then
        (case init_code c of
           None \<Rightarrow> (Inl AttributeError, h)
         | Some code \<Rightarrow>
             (case inject create_nested (cls_name c) (co_varnames code) (init_hints c) n
                     (map fst (deref h n)) h of
                (Some e, h') \<Rightarrow> (Inl e, h')
              | (None, h') \<Rightarrow> (instantiate c (merge_loaded h' (deref h' n) loaded), h')))
      else (instantiate c (merge_loaded h (deref h n) loaded), h))"

primrec create :: "nat \<Rightarrow> world \<Rightarrow> hint \<Rightarrow> addr \<Rightarrow> addr option \<Rightarrow> heap \<Rightarrow> result" where
  "create 0 w instantiator a loaded h = (Inl RecursionError, h)"
| "create (Suc fuel) w instantiator a loaded h =
     (case resolve w instantiator (deref h a) of
        Inl e \<Rightarrow> (Inl e, h @ [dict_pop ''type'' (deref h a)])
      | Inr resolved \<Rightarrow>
          construct (\<lambda>attribute nested. create fuel w attribute nested None) resolved (length h) loaded
            (h @ [dict_pop ''type'' (deref h a)]))"

subsection \<open>Facts about dicts and descendants\<close>







definition family :: "cls list \<Rightarrow> cls set" where
  "family cs = set (concat (map (\<lambda>child. child # all_descendants child) cs))"



lemma all_descendants_family: "set (all_descendants c) = family (subclasses c)"
  by (cases c) (simp add: family_def)






subsection \<open>create writes to its copy only\<close>

lemma take_length_le:
  assumes "take (length h) h' = h"
  shows "length h \<le> length h'"
proof -
  have "length (take (length h) h') = length h" using assms by simp
  then show ?thesis by (simp add: min_def split: if_splits)
qed

lemma inject_frame:
  assumes nested: "\<forall>attribute a h. take (length h) (snd (create_nested attribute a h)) = h"
  shows "n < length h \<Longrightarrow>
         take n (snd (inject create_nested name parameters attributes n keys h)) = take n h
         \<and> length h \<le> length (snd (inject create_nested name parameters attributes n keys h))"
proof (induction keys arbitrary: h)
  case Nil
  then show ?case by simp
next
  case (Cons option_name rest)
  note n = Cons.prems
  have skip: "take n (snd (inject create_nested name parameters attributes n rest h)) = take n h
         \<and> length h \<le> length (snd (inject create_nested name parameters attributes n rest h))"
    using Cons.IH[OF n] .
  have step: "take n (snd (inject create_nested name parameters attributes n rest
                 (h'[n := dict_set option_name object (deref h' n)]))) = take n h
         \<and> length h \<le> length (snd (inject create_nested name parameters attributes n rest
                 (h'[n := dict_set option_name object (deref h' n)])))"
    if c: "create_nested attribute a h = (Inr object, h')" for attribute a object h'
  proof -
    have "take (length h) (snd (create_nested attribute a h)) = h" using nested by blast
    then have t: "take (length h) h' = h" using c by simp
    then have l: "length h \<le> length h'" by (rule take_length_le)
    have "take n h' = take n (take (length h) h')" using n by (simp add: min_def)
    then have tn: "take n h' = take n h" using t by simp
    let ?h = "h'[n := dict_set option_name object (deref h' n)]"
    have n': "n < length ?h" using n l by simp
    have "take n ?h = take n h" using tn by simp
    moreover have "length h \<le> length ?h" using l by simp
    ultimately show ?thesis using Cons.IH[OF n'] by simp
  qed
  have fail: "take n h' = take n h \<and> length h \<le> length h'"
    if c: "create_nested attribute a h = (Inl e, h')" for attribute a e h'
  proof -
    have "take (length h) (snd (create_nested attribute a h)) = h" using nested by blast
    then have t: "take (length h) h' = h" using c by simp
    then have l: "length h \<le> length h'" by (rule take_length_le)
    have "take n h' = take n (take (length h) h')" using n by (simp add: min_def)
    then show ?thesis using t l by simp
  qed
  show ?case
    using skip step fail
    by (auto split: option.splits pyval.splits prod.splits sum.splits)
qed

lemma construct_frame:
  assumes nested: "\<forall>attribute a h. take (length h) (snd (create_nested attribute a h)) = h"
    and n: "n < length h"
  shows "take n (snd (construct create_nested instantiator n loaded h)) = take n h"
proof (cases instantiator)
  case (Class_hint c)
  have "take n (snd (inject create_nested name parameters attributes n keys h)) = take n h"
    for name parameters attributes keys
    using inject_frame[OF nested n] by blast
  then have "take n h' = take n h"
    if "inject create_nested name parameters attributes n keys h = (r, h')"
    for name parameters attributes keys r h'
    using that by (metis snd_conv)
  then show ?thesis
    using Class_hint by (auto split: option.splits prod.splits)
qed simp_all

lemma create_frame: "take (length h) (snd (create fuel w instantiator a loaded h)) = h"
proof (induction fuel arbitrary: instantiator a loaded h)
  case 0
  then show ?case by simp
next
  case (Suc fuel)
  let ?h = "h @ [dict_pop ''type'' (deref h a)]"
  have "take (length h) (snd (construct (\<lambda>attribute nested. create fuel w attribute nested None)
          resolved (length h) loaded ?h)) = take (length h) ?h" for resolved
    by (rule construct_frame) (simp_all add: Suc.IH)
  then show ?case by (simp split: sum.splits)
qed

subsection \<open>A factory of bars, and the loaders of the repository\<close>

text \<open>
  \<open>pascalize_words\<close> is \<open>humps.pascalize\<close> on the dependency names of the two scenarios,
  which are words joined by single underscores: the underscores go and each word starts
  in upper case (\<open>"molecule_net_Loader"\<close> becomes \<open>"MoleculeNetLoader"\<close>).
\<close>

definition upper :: "char \<Rightarrow> char" where
  "upper c =
     (case map_of (zip ''abcdefghijklmnopqrstuvwxyz'' ''ABCDEFGHIJKLMNOPQRSTUVWXYZ'') c of
        None \<Rightarrow> c
      | Some u \<Rightarrow> u)"

fun pascal_words :: "bool \<Rightarrow> string \<Rightarrow> string" where
  "pascal_words first [] = []"
| "pascal_words first (c # cs) =
     (if c = CHR ''_'' then pascal_words True cs
      else (if first then upper c else c) # pascal_words False cs)"

definition pascalize_words :: "string \<Rightarrow> string" where
  "pascalize_words s = pascal_words True s"

definition python_init :: "(string \<times> bool) list \<Rightarrow> string list \<Rightarrow> code" where
  "python_init parameters variables =
     \<lparr>self_arg = ''self'', args = parameters, kwonly = [], varargs = None, varkw = None,
      local_vars = variables\<rparr>"

text \<open>
  The first scenario: an abstract class \<open>AbstractBar\<close> with the subclasses \<open>FooBar\<close>
  and \<open>AbstractMidBar\<close>, itself abstract, which has the subclass \<open>BazBar\<close>.
  \<open>FooBar.__init__(self, size, helper: AbstractHelper, settings: Dict[str, Any] = None)\<close>
  takes a helper, to be made from a nested dict, and a dict of settings.
\<close>

definition FastHelper :: cls where
  "FastHelper = Cls ''FastHelper'' [] False (Some (python_init [(''level'', False)] [])) []"

definition AbstractHelper :: cls where
  "AbstractHelper = Cls ''AbstractHelper'' [FastHelper] True (Some (python_init [] [])) []"

definition FooBar :: cls where
  "FooBar =
     Cls ''FooBar'' [] False
       (Some (python_init [(''size'', False), (''helper'', False), (''settings'', True)] []))
       [(''helper'', Class_hint AbstractHelper), (''settings'', Dict_hint)]"

definition BazBar :: cls where
  "BazBar = Cls ''BazBar'' [] False (Some (python_init [] [])) []"

definition AbstractMidBar :: cls where
  "AbstractMidBar = Cls ''AbstractMidBar'' [BazBar] True (Some (python_init [] [])) []"

definition AbstractBar :: cls where
  "AbstractBar = Cls ''AbstractBar'' [FooBar, AbstractMidBar] True (Some (python_init [] [])) []"

definition factory_world :: world where
  "factory_world = \<lparr>pascalize = pascalize_words, modules = []\<rparr>"

definition bar_heap :: heap where
  "bar_heap =
     [[(''type'', VStr ''foo''), (''size'', VInt 3), (''helper'', VDict 1), (''settings'', VDict 2)],
      [(''type'', VStr ''fast''), (''level'', VInt 1)],
      [(''seed'', VInt 7)]]"

definition bar_object :: pyval where
  "bar_object =
     VObj ''FooBar''
       [(''size'', VInt 3), (''helper'', VObj ''FastHelper'' [(''level'', VInt 1)]),
        (''settings'', VDict 2)]"

text \<open>
  The second scenario: \<^verbatim>\<open>src/lib/data_loaders.py\<close>. \<open>AbstractLoader\<close> (lines 11 to 31) has
  four abstract methods and one subclass, \<open>MoleculeNetLoader\<close> (line 34), whose constructor
  (lines 36 to 40) assigns a local variable \<open>dataset\<close>:

  \<^verbatim>\<open>def __init__(self, config: Config, mode: Literal["train", "test"]):\<close>
  \<^verbatim>\<open>    super().__init__(config, mode)\<close>
  \<^verbatim>\<open>    dataset = MoleculeNet(root=self._config.input_path, name=self._config.dataset)\<close>
  \<^verbatim>\<open>    self._dataset = self._get_split(dataset)\<close>

  Modelled from the spec: \<open>Config\<close>, the class of \<open>lib/config.py\<close>, which is not among the
  sources. It is the annotation of a parameter that no run below visits.
\<close>

definition Config :: cls where
  "Config = Cls ''Config'' [] False None []"

definition MoleculeNetLoader :: cls where
  "MoleculeNetLoader =
     Cls ''MoleculeNetLoader'' [] False
       (Some (python_init [(''config'', False), (''mode'', False)] [''dataset'']))
       [(''config'', Class_hint Config), (''mode'', Typing_hint)]"

definition AbstractLoader :: cls where
  "AbstractLoader =
     Cls ''AbstractLoader'' [MoleculeNetLoader] True
       (Some (python_init [(''config'', False), (''mode'', False)] []))
       [(''config'', Class_hint Config), (''mode'', Typing_hint)]"

definition loaded_parameters :: "pyval dict" where
  "loaded_parameters = [(''config'', VObj ''Config'' []), (''mode'', VStr ''train'')]"

lemmas loader_classes = AbstractLoader_def MoleculeNetLoader_def Config_def factory_world_def
  loaded_parameters_def

subsection \<open>Evaluating the scenarios\<close>

lemma create_numeral:
  "create (numeral k) w instantiator a loaded h =
     (case resolve w instantiator (deref h a) of
        Inl e \<Rightarrow> (Inl e, h @ [dict_pop ''type'' (deref h a)])
      | Inr resolved \<Rightarrow>
          construct (\<lambda>attribute nested. create (pred_numeral k) w attribute nested None) resolved
            (length h) loaded (h @ [dict_pop ''type'' (deref h a)]))"
  by (simp add: numeral_eq_Suc)

lemmas factory_eval = create_numeral resolve_def select_def dependency_name_def deref_def
  instantiate_def binds_def accepts_def keyword_names_def required_names_def
  co_varnames_def merge_loaded_def python_init_def pascalize_words_def upper_def

lemmas bar_classes = AbstractBar_def AbstractMidBar_def BazBar_def FooBar_def AbstractHelper_def
  FastHelper_def factory_world_def

lemma bar_create:
  "create 3 factory_world (Class_hint AbstractBar) 0 None bar_heap =
     (Inr bar_object,
      bar_heap @ [[(''size'', VInt 3), (''helper'', VObj ''FastHelper'' [(''level'', VInt 1)]),
                   (''settings'', VDict 2)],
                  [(''level'', VInt 1)]])"
  by (simp add: factory_eval bar_classes bar_heap_def bar_object_def image_iff)






subsection \<open>Claims about SuperFactory\<close>




text \<open>
  C7: the test \<open>option_name not in parameters\<close> reads \<open>co_varnames\<close>, which lists the local
  variables of \<open>__init__\<close> after its parameters. \<open>MoleculeNetLoader.__init__\<close> has no parameter
  \<open>dataset\<close>, but a local variable of that name: the option \<open>dataset\<close> passes the test, no
  \<open>ReflectionError\<close> is raised, and the call of the class raises \<open>TypeError\<close>. An option
  \<open>datasets\<close>, which is no name of the code at all, raises the \<open>ReflectionError\<close>; without
  either the loader is made.
\<close>

theorem local_variable_passes_option_check:
  "init_code MoleculeNetLoader = Some (python_init [(''config'', False), (''mode'', False)] [''dataset''])
   \<and> \<not> accepts (python_init [(''config'', False), (''mode'', False)] [''dataset'']) ''dataset''
   \<and> ''dataset'' \<in> set (co_varnames (python_init [(''config'', False), (''mode'', False)] [''dataset'']))
   \<and> fst (create 2 factory_world (Class_hint AbstractLoader) 0 (Some 1)
            [[(''type'', VStr ''molecule_net''), (''dataset'', VStr ''tox21'')], loaded_parameters])
       = Inl TypeError
   \<and> fst (create 2 factory_world (Class_hint AbstractLoader) 0 (Some 1)
            [[(''type'', VStr ''molecule_net''), (''datasets'', VStr ''tox21'')], loaded_parameters])
       = Inl (UnknownOption ''MoleculeNetLoader'' ''datasets'')
   \<and> fst (create 2 factory_world (Class_hint AbstractLoader) 0 (Some 1)
            [[(''type'', VStr ''molecule_net'')], loaded_parameters])
       = Inr (VObj ''MoleculeNetLoader'' loaded_parameters)"
  by (simp add: factory_eval loader_classes image_iff)

text \<open>
  C10: \<open>create\<close> never writes to a dict object that existed when it was called. Whether
  it returns or raises, for every instantiator, every loaded parameters and every
  recursion limit, the parameter dict of the caller at \<open>a\<close> holds the items it held, the
  discriminator included, and so does every other dict that existed before the call
  (the nested ones among them): the heap after the call is the heap before it, followed
  by the copies that \<open>create\<close> made.
\<close>

theorem create_leaves_caller_maps_unchanged:
  assumes "a < length h"
  shows "deref (snd (create fuel w instantiator a loaded h)) a = deref h a
         \<and> take (length h) (snd (create fuel w instantiator a loaded h)) = h"
proof -
  let ?h = "snd (create fuel w instantiator a loaded h)"
  have t: "take (length h) ?h = h" by (rule create_frame)
  then have "length h \<le> length ?h" by (rule take_length_le)
  moreover have "?h ! a = take (length h) ?h ! a" using assms by simp
  ultimately show ?thesis using t assms by (simp add: deref_def)
qed

theorem create_leaves_caller_maps_unchanged_witness:
  "0 < length bar_heap
   \<and> deref (snd (create 3 factory_world (Class_hint AbstractBar) 0 None bar_heap)) 0
       = [(''type'', VStr ''foo''), (''size'', VInt 3), (''helper'', VDict 1), (''settings'', VDict 2)]
   \<and> take (length bar_heap) (snd (create 3 factory_world (Class_hint AbstractBar) 0 None bar_heap))
       = bar_heap
   \<and> fst (create 3 factory_world (Class_hint AbstractBar) 0 None bar_heap) = Inr bar_object"
proof -
  have l: "0 < length bar_heap" by (simp add: bar_heap_def)
  have d: "deref bar_heap 0
     = [(''type'', VStr ''foo''), (''size'', VInt 3), (''helper'', VDict 1), (''settings'', VDict 2)]"
    by (simp add: deref_def bar_heap_def)
  show ?thesis
    using create_leaves_caller_maps_unchanged[OF l, of 3 factory_world "Class_hint AbstractBar" None] l d
    by (simp add: bar_create)
qed

end
